theory Spec2Isabelle
  imports Main
begin

section \<open>Frames, JSON values and Python exceptions\<close>

text \<open>
  A frame of a multipart message is a byte string. The metadata of a request travels as
  one JSON document, so the values of its fields are JSON values; a Python tuple and a
  Python list are both a \<open>JList\<close>, a Python dict is a \<open>JDict\<close> read by its first
  binding of a key.
\<close>

type_synonym frame = string

datatype jvalue =
    JNull
  | JBool bool
  | JInt int
  | JStr string
  | JList "jvalue list"
  | JDict "(string \<times> jvalue) list"

datatype exn =
    IndexError
  | ValueError
  | KeyError
  | TypeError
  | NameError
  | SocketError
  | OtherError string

text \<open>Python truth value of a JSON value, as \<open>x or y\<close> tests it.\<close>

fun truthy :: "jvalue \<Rightarrow> bool" where
  "truthy JNull = False"
| "truthy (JBool v) = v"
| "truthy (JInt n) = (n \<noteq> 0)"
| "truthy (JStr s) = (s \<noteq> [])"
| "truthy (JList xs) = (xs \<noteq> [])"
| "truthy (JDict kvs) = (kvs \<noteq> [])"

text \<open>\<open>d[k]\<close> with a string key: KeyError on a dict without the key, TypeError on a
  value that is no dict.\<close>

definition getitem :: "jvalue \<Rightarrow> string \<Rightarrow> exn + jvalue" where
  "getitem d k =
     (case d of
        JDict kvs \<Rightarrow> (case map_of kvs k of None \<Rightarrow> Inl KeyError | Some v \<Rightarrow> Inr v)
      | _ \<Rightarrow> Inl TypeError)"

text \<open>\<open>dict(x)\<close> of a mapping is a copy of it.\<close>

definition dict_of :: "jvalue \<Rightarrow> exn + jvalue" where
  "dict_of x = (case x of JDict kvs \<Rightarrow> Inr (JDict kvs) | _ \<Rightarrow> Inl TypeError)"

text \<open>\<open>xs.index(x)\<close>: the first position of \<open>x\<close>; Python raises ValueError when there
  is none.\<close>

fun index_of :: "'a \<Rightarrow> 'a list \<Rightarrow> nat option" where
  "index_of x [] = None"
| "index_of x (y # ys) =
     (if y = x then Some 0 else (case index_of x ys of None \<Rightarrow> None | Some i \<Rightarrow> Some (Suc i)))"

text \<open>\<open>xs[i]\<close> for a non-negative index: IndexError out of range.\<close>

definition item :: "'a list \<Rightarrow> nat \<Rightarrow> exn + 'a" where
  "item xs i = (if i < length xs then Inr (xs ! i) else Inl IndexError)"

text \<open>Sequencing of computations that may raise.\<close>

definition then_e :: "exn + 'a \<Rightarrow> ('a \<Rightarrow> exn + 'b) \<Rightarrow> exn + 'b" where
  "then_e r f = (case r of Inl e \<Rightarrow> Inl e | Inr v \<Rightarrow> f v)"

text \<open>
  The library functions the module calls and that live outside it: \<open>jsonapi.dumps\<close>,
  \<open>jsonapi.loads\<close> (None: the text is no JSON document, a ValueError) and
  \<open>urlparse.urlsplit\<close> composed with \<open>native_str\<close>, of which the constructor keeps
  the path and the query (None: it raises). \<open>dumps\<close> is taken to return on every
  value, and \<open>loads\<close> to return dicts without a repeated key.
\<close>

record lib =
  dumps :: "jvalue \<Rightarrow> frame"
  loads :: "frame \<Rightarrow> jvalue option"
  urlsplit :: "jvalue \<Rightarrow> (string \<times> string) option"

section \<open>What a run leaves behind\<close>

text \<open>
  Handlers, write callbacks and the logging module are collaborators: a call to one of
  them is recorded, in order, as an event.
\<close>

type_synonym handler = nat

datatype event =
    LogDebug string
  | LogError string
  | HWrite handler frame
  | HFlush handler
  | HFinish handler
  | HSendError handler int
  | HSetHeadersWritten handler
  | HSetTransforms handler
  | CallbackCalled nat

section \<open>Back end: the request representations\<close>

datatype callback = Callback nat bool

datatype http_request_class = ZMQHTTPRequest | ZMQStreamingHTTPRequest

record http_request =
  http_method :: jvalue
  uri :: jvalue
  version :: jvalue
  headers :: jvalue
  body :: frame
  remote_ip :: jvalue
  protocol :: jvalue
  host :: jvalue
  files :: jvalue
  arguments :: jvalue

record zmq_http_request = http_request +
  cls :: http_request_class
  path :: string
  query :: string
  idents :: "frame list"
  msg_id :: frame
  chunks :: "frame list"
  write_callback :: "callback option"

text \<open>The stream of the application (what \<open>send_multipart\<close> has sent) and its log.\<close>

record service =
  stream :: "frame list list"
  service_log :: "event list"

definition ZMQHTTPRequest_init ::
  "lib \<Rightarrow> http_request_class \<Rightarrow> jvalue \<Rightarrow> jvalue \<Rightarrow> jvalue \<Rightarrow> jvalue \<Rightarrow> frame \<Rightarrow> jvalue \<Rightarrow>
   jvalue \<Rightarrow> jvalue \<Rightarrow> jvalue \<Rightarrow> jvalue \<Rightarrow> frame list \<Rightarrow> frame \<Rightarrow> exn + zmq_http_request" where
  "ZMQHTTPRequest_init L c m u v h b rip pr ho fs ar ids mid =
     (case urlsplit L u of
        None \<Rightarrow> Inl ValueError
      | Some (p, q) \<Rightarrow>
          Inr \<lparr> http_method = m, uri = u, version = v,
                headers = (if truthy h then h else JDict []),
                body = (if b \<noteq> [] then b else []),
                remote_ip = rip, protocol = pr, host = ho,
                files = (if truthy fs then fs else JDict []),
                arguments = ar,
                cls = c, path = p, query = q, idents = ids, msg_id = mid,
                chunks = [], write_callback = None \<rparr>)"

definition create_msg_list :: "zmq_http_request \<Rightarrow> frame list" where
  "create_msg_list rq = [] @ idents rq @ [msg_id rq]"

text \<open>A write callback runs inside \<open>try\<close> / bare \<open>except\<close>: what it raises is logged.\<close>

definition run_callback :: "callback \<Rightarrow> service \<Rightarrow> service" where
  "run_callback cb st =
     (case cb of Callback n raises \<Rightarrow>
        (let st1 = st\<lparr>service_log := service_log st @ [CallbackCalled n]\<rparr>
         in if raises
            then st1\<lparr>service_log := service_log st1 @
                   [LogError ''Unexpected exception in write callback'']\<rparr>
            else st1))"

definition ZMQHTTPRequest_write ::
  "zmq_http_request \<Rightarrow> frame \<Rightarrow> callback option \<Rightarrow> service \<Rightarrow> zmq_http_request \<times> service" where
  "ZMQHTTPRequest_write rq chunk cb st =
     (let st1 = st\<lparr>service_log := service_log st @ [LogDebug ''Buffering chunk'']\<rparr>;
          rq1 = (case cb of None \<Rightarrow> rq | Some f \<Rightarrow> rq\<lparr>write_callback := Some f\<rparr>)
      in (rq1\<lparr>chunks := chunks rq1 @ [chunk]\<rparr>, st1))"

definition ZMQHTTPRequest_finish ::
  "zmq_http_request \<Rightarrow> service \<Rightarrow> zmq_http_request \<times> service" where
  "ZMQHTTPRequest_finish rq st =
     (let msg_list = create_msg_list rq @ chunks rq;
          rq1 = rq\<lparr>chunks := []\<rparr>;
          st1 = st\<lparr>service_log := service_log st @ [LogDebug ''Sending reply'']\<rparr>;
          st2 = st1\<lparr>stream := stream st1 @ [msg_list]\<rparr>
      in (case write_callback rq1 of
            None \<Rightarrow> (rq1, st2)
          | Some f \<Rightarrow> (rq1\<lparr>write_callback := None\<rparr>, run_callback f st2)))"

definition ZMQStreamingHTTPRequest_write ::
  "zmq_http_request \<Rightarrow> frame \<Rightarrow> callback option \<Rightarrow> service \<Rightarrow> zmq_http_request \<times> service" where
  "ZMQStreamingHTTPRequest_write rq chunk cb st =
     (let msg_list = create_msg_list rq @ [''DATA'', chunk];
          st1 = st\<lparr>service_log := service_log st @ [LogDebug ''Sending write'']\<rparr>;
          st2 = st1\<lparr>stream := stream st1 @ [msg_list]\<rparr>
      in (case cb of None \<Rightarrow> (rq, st2) | Some f \<Rightarrow> (rq, run_callback f st2)))"

definition ZMQStreamingHTTPRequest_finish ::
  "zmq_http_request \<Rightarrow> service \<Rightarrow> zmq_http_request \<times> service" where
  "ZMQStreamingHTTPRequest_finish rq st =
     (let msg_list = create_msg_list rq @ [''FINISH''];
          st1 = st\<lparr>service_log := service_log st @ [LogDebug ''Sending finish'']\<rparr>
      in (rq, st1\<lparr>stream := stream st1 @ [msg_list]\<rparr>))"

text \<open>What a handler does to its request: the method called is the one of the
  request's class.\<close>

datatype request_op = Write frame "callback option" | Finish

definition request_op_run ::
  "request_op \<Rightarrow> zmq_http_request \<Rightarrow> service \<Rightarrow> zmq_http_request \<times> service" where
  "request_op_run oper rq st =
     (case oper of
        Write chunk cb \<Rightarrow>
          (case cls rq of
             ZMQHTTPRequest \<Rightarrow> ZMQHTTPRequest_write rq chunk cb st
           | ZMQStreamingHTTPRequest \<Rightarrow> ZMQStreamingHTTPRequest_write rq chunk cb st)
      | Finish \<Rightarrow>
          (case cls rq of
             ZMQHTTPRequest \<Rightarrow> ZMQHTTPRequest_finish rq st
           | ZMQStreamingHTTPRequest \<Rightarrow> ZMQStreamingHTTPRequest_finish rq st))"

fun request_ops_run ::
  "request_op list \<Rightarrow> zmq_http_request \<Rightarrow> service \<Rightarrow> zmq_http_request \<times> service" where
  "request_ops_run [] rq st = (rq, st)"
| "request_ops_run (oper # opers) rq st =
     (case request_op_run oper rq st of (rq1, st1) \<Rightarrow> request_ops_run opers rq1 st1)"

section \<open>Back end: the application\<close>

text \<open>
  The web framework's side of the application: the class of request the settings ask
  for, the handler table of the request's host, and what each handler (one of the
  table, the redirect handler, the 404 handler) does to its request when it is
  executed with the positional and keyword arguments.
\<close>

type_synonym handler_code =
  "zmq_http_request \<Rightarrow> jvalue list \<Rightarrow> (string \<times> jvalue) list \<Rightarrow> request_op list"

record url_spec =
  regex_match :: "string \<Rightarrow> bool"
  handler_class :: handler_code

record application =
  http_request_class_setting :: "http_request_class option"
  get_host_handlers :: "zmq_http_request \<Rightarrow> url_spec list"
  redirect_handler_class :: handler_code
  error_handler :: handler_code

definition ZMQApplication_parse_request ::
  "lib \<Rightarrow> application \<Rightarrow> frame list \<Rightarrow> exn + (zmq_http_request \<times> jvalue \<times> jvalue)" where
  "ZMQApplication_parse_request L app msg_list =
     (let len_msg_list = length msg_list in
      if len_msg_list < 4 then Inl IndexError
      else
        (case index_of ''|'' msg_list of
           None \<Rightarrow> Inl ValueError
         | Some i \<Rightarrow>
             (let ids = take i msg_list in
              then_e (item msg_list (i + 1)) (\<lambda>mid.
              then_e (item msg_list (i + 2)) (\<lambda>js.
              then_e (case loads L js of None \<Rightarrow> Inl ValueError | Some r \<Rightarrow> Inr r) (\<lambda>req.
              then_e (if len_msg_list = i + 4 then item msg_list (i + 3) else Inr []) (\<lambda>b.
              (let c = (case http_request_class_setting app of
                          None \<Rightarrow> ZMQHTTPRequest | Some k \<Rightarrow> k) in
               then_e (getitem req ''method'') (\<lambda>m.
               then_e (getitem req ''uri'') (\<lambda>u.
               then_e (getitem req ''version'') (\<lambda>v.
               then_e (getitem req ''headers'') (\<lambda>h.
               then_e (getitem req ''remote_ip'') (\<lambda>rip.
               then_e (getitem req ''protocol'') (\<lambda>pr.
               then_e (getitem req ''host'') (\<lambda>ho.
               then_e (getitem req ''files'') (\<lambda>fs.
               then_e (getitem req ''arguments'') (\<lambda>ar.
               then_e (ZMQHTTPRequest_init L c m u v h b rip pr ho fs ar ids mid) (\<lambda>request.
               then_e (getitem req ''args'') (\<lambda>args.
               then_e (getitem req ''kwargs'') (\<lambda>kwargs.
               Inr (request, args, kwargs)))))))))))))))))))))"

text \<open>\<open>*args\<close> takes any iterable, \<open>**kwargs\<close> a mapping; anything else is a
  TypeError at the call.\<close>

definition star_args :: "jvalue \<Rightarrow> exn + jvalue list" where
  "star_args a =
     (case a of
        JList xs \<Rightarrow> Inr xs
      | JStr s \<Rightarrow> Inr (map (\<lambda>ch. JStr [ch]) s)
      | JDict kvs \<Rightarrow> Inr (map (\<lambda>kv. JStr (fst kv)) kvs)
      | _ \<Rightarrow> Inl TypeError)"

definition star_kwargs :: "jvalue \<Rightarrow> exn + (string \<times> jvalue) list" where
  "star_kwargs k = (case k of JDict kvs \<Rightarrow> Inr kvs | _ \<Rightarrow> Inl TypeError)"

fun first_match :: "url_spec list \<Rightarrow> string \<Rightarrow> handler_code option" where
  "first_match [] p = None"
| "first_match (sp # sps) p =
     (if regex_match sp p then Some (handler_class sp) else first_match sps p)"

definition ZMQApplication_call ::
  "application \<Rightarrow> zmq_http_request \<Rightarrow> jvalue \<Rightarrow> jvalue \<Rightarrow> service \<Rightarrow> service \<times> exn option" where
  "ZMQApplication_call app request args kwargs st =
     (let hs = get_host_handlers app request;
          code = (if hs = [] then redirect_handler_class app
                  else (case first_match hs (path request) of
                          Some c \<Rightarrow> c
                        | None \<Rightarrow> error_handler app))
      in (case star_args args of
            Inl e \<Rightarrow> (st, Some e)
          | Inr a \<Rightarrow>
              (case star_kwargs kwargs of
                 Inl e \<Rightarrow> (st, Some e)
               | Inr k \<Rightarrow> (snd (request_ops_run (code request a k) request st), None))))"

text \<open>The \<open>on_recv\<close> callback of the application's stream. The second component is the
  exception that leaves the callback, if one does.\<close>

definition ZMQApplication_handle_request ::
  "lib \<Rightarrow> application \<Rightarrow> frame list \<Rightarrow> service \<Rightarrow> service \<times> exn option" where
  "ZMQApplication_handle_request L app msg_list st =
     (let st1 = st\<lparr>service_log := service_log st @ [LogDebug ''Handling request'']\<rparr> in
      case ZMQApplication_parse_request L app msg_list of
        Inl IndexError \<Rightarrow>
          (st1\<lparr>service_log := service_log st1 @
             [LogError ''Unexpected request message format in ZMQApplication._handle_request.'']\<rparr>,
           None)
      | Inl e \<Rightarrow> (st1, Some e)
      | Inr (request, args, kwargs) \<Rightarrow> ZMQApplication_call app request args kwargs st1)"

section \<open>Front end: the proxies\<close>

text \<open>
  What a handler, asked to write, flush, finish or send an error, does in answer is its
  own business; of it the proxy sees only whether the call returns or raises. A
  behaviour gives that, for each call, from the events so far.
\<close>

type_synonym behaviour = "event list \<Rightarrow> event \<Rightarrow> exn option"

text \<open>
  The proxy: \<open>_callbacks\<close> maps a message id to its handler and its DelayedCallback
  (or None); \<open>timers\<close> holds the DelayedCallbacks that run (started, neither stopped
  nor fired), each with the handler and message id its \<open>_handle_timeout\<close> closes
  over; a DelayedCallback object is named by the serial number of its creation.
\<close>

record proxy =
  callbacks :: "frame \<rightharpoonup> handler \<times> nat option"
  timers :: "nat \<rightharpoonup> handler \<times> frame"
  next_timer :: nat
  proxy_stream :: "frame list list"
  trace :: "event list"

datatype proxy_class = ZMQApplicationProxy | ZMQStreamingApplicationProxy

definition ZMQApplicationProxy_init :: proxy where
  "ZMQApplicationProxy_init =
     \<lparr> callbacks = Map.empty, timers = Map.empty, next_timer = 0,
       proxy_stream = [], trace = [] \<rparr>"

definition logging :: "event \<Rightarrow> proxy \<Rightarrow> proxy" where
  "logging ev s = s\<lparr>trace := trace s @ [ev]\<rparr>"

definition handler_call :: "behaviour \<Rightarrow> event \<Rightarrow> proxy \<Rightarrow> proxy \<times> exn option" where
  "handler_call B ev s = (s\<lparr>trace := trace s @ [ev]\<rparr>, B (trace s) ev)"

text \<open>
  Modelled from the spec: the class DelayedCallback of the event loop is not among the
  sources; the spec has it as "a one-shot delayed-callback scheduler with
  \<open>start()\<close>/\<open>stop()\<close>", "a cancelable one-shot timer". Starting a new one makes it
  run, stopping it makes it run no more, and the loop fires only one that runs, once.
\<close>

definition DelayedCallback_start :: "handler \<Rightarrow> frame \<Rightarrow> proxy \<Rightarrow> nat \<times> proxy" where
  "DelayedCallback_start h mid s =
     (next_timer s,
      s\<lparr>timers := (timers s)(next_timer s \<mapsto> (h, mid)), next_timer := Suc (next_timer s)\<rparr>)"

definition DelayedCallback_stop :: "nat \<Rightarrow> proxy \<Rightarrow> proxy" where
  "DelayedCallback_stop d s = s\<lparr>timers := (timers s)(d := None)\<rparr>"

text \<open>The closure \<open>_handle_timeout\<close> of \<open>send_request\<close>.\<close>

definition handle_timeout :: "behaviour \<Rightarrow> handler \<Rightarrow> frame \<Rightarrow> proxy \<Rightarrow> proxy \<times> exn option" where
  "handle_timeout B h mid s =
     (case handler_call B (HSendError h 504) s of
        (s1, Some e) \<Rightarrow> (s1, Some e)
      | (s1, None) \<Rightarrow>
          (case callbacks s1 mid of
             Some cb \<Rightarrow> (s1\<lparr>callbacks := (callbacks s1)(mid := None)\<rparr>, None)
           | None \<Rightarrow> (logging (LogError ''Unexpected error removing callbacks'') s1, None)))"

definition DelayedCallback_fire :: "behaviour \<Rightarrow> nat \<Rightarrow> proxy \<Rightarrow> proxy \<times> exn option" where
  "DelayedCallback_fire B d s =
     (case timers s d of
        None \<Rightarrow> (s, None)
      | Some (h, mid) \<Rightarrow> handle_timeout B h mid (s\<lparr>timers := (timers s)(d := None)\<rparr>))"

text \<open>The metadata dict \<open>req\<close> of \<open>send_request\<close>.\<close>

definition request_meta :: "http_request \<Rightarrow> jvalue \<Rightarrow> jvalue \<Rightarrow> jvalue \<Rightarrow> jvalue" where
  "request_meta request hdrs args kwargs =
     JDict [(''method'', http_method request),
            (''uri'', uri request),
            (''version'', version request),
            (''headers'', hdrs),
            (''remote_ip'', remote_ip request),
            (''protocol'', protocol request),
            (''host'', host request),
            (''files'', files request),
            (''arguments'', arguments request),
            (''args'', args),
            (''kwargs'', kwargs)]"

definition request_msg_list :: "lib \<Rightarrow> frame \<Rightarrow> jvalue \<Rightarrow> frame \<Rightarrow> frame list" where
  "request_msg_list L mid req b =
     [''|'', mid, dumps L req] @ (if b \<noteq> [] then [b] else [])"

text \<open>\<open>send_request\<close>; the fresh \<open>uuid.uuid4()\<close> is the argument \<open>mid\<close>.\<close>

definition send_request ::
  "lib \<Rightarrow> http_request \<Rightarrow> jvalue \<Rightarrow> jvalue \<Rightarrow> handler \<Rightarrow> int \<Rightarrow> frame \<Rightarrow> proxy \<Rightarrow>
   exn + (frame \<times> proxy)" where
  "send_request L request args kwargs h timeout mid s =
     (case dict_of (headers request) of
        Inl e \<Rightarrow> Inl e
      | Inr hdrs \<Rightarrow>
          (let req = request_meta request hdrs args kwargs;
               msg_list = request_msg_list L mid req (body request);
               s1 = logging (LogDebug ''Sending request'') s;
               s2 = s1\<lparr>proxy_stream := proxy_stream s1 @ [msg_list]\<rparr>
           in if timeout > 0
              then (case DelayedCallback_start h mid s2 of
                      (dc, s3) \<Rightarrow> Inr (mid, s3\<lparr>callbacks := (callbacks s3)(mid \<mapsto> (h, Some dc))\<rparr>))
              else Inr (mid, s2\<lparr>callbacks := (callbacks s2)(mid \<mapsto> (h, None))\<rparr>)))"

text \<open>The \<open>try\<close> body of the bulk reply path: every reply chunk is written, the two
  flags of the handler are set, the handler is finished.\<close>

fun write_replies :: "behaviour \<Rightarrow> handler \<Rightarrow> frame list \<Rightarrow> proxy \<Rightarrow> proxy \<times> exn option" where
  "write_replies B h [] s = (s, None)"
| "write_replies B h (reply # replies) s =
     (case handler_call B (HWrite h reply) s of
        (s1, Some e) \<Rightarrow> (s1, Some e)
      | (s1, None) \<Rightarrow> write_replies B h replies s1)"

definition forward_replies :: "behaviour \<Rightarrow> handler \<Rightarrow> frame list \<Rightarrow> proxy \<Rightarrow> proxy \<times> exn option" where
  "forward_replies B h replies s =
     (case write_replies B h replies s of
        (s1, Some e) \<Rightarrow> (s1, Some e)
      | (s1, None) \<Rightarrow>
          handler_call B (HFinish h)
            (logging (HSetTransforms h) (logging (HSetHeadersWritten h) s1)))"

definition ZMQApplicationProxy_handle_reply ::
  "behaviour \<Rightarrow> frame list \<Rightarrow> proxy \<Rightarrow> proxy \<times> exn option" where
  "ZMQApplicationProxy_handle_reply B msg_list s =
     (let s1 = logging (LogDebug ''Handling reply'') s;
          len_msg_list = length msg_list
      in if len_msg_list < 2
         then (logging (LogError
                 ''Unexpected reply from proxy in ZMQApplicationProxy._handle_reply'') s1, None)
         else
           (let mid = msg_list ! 0;
                replies = drop 1 msg_list
            in (case callbacks s1 mid of
                  None \<Rightarrow> (s1, None)
                | Some (h, dc) \<Rightarrow>
                    (let s2 = s1\<lparr>callbacks := (callbacks s1)(mid := None)\<rparr>;
                         s3 = (case dc of None \<Rightarrow> s2 | Some d \<Rightarrow> DelayedCallback_stop d s2)
                     in (case forward_replies B h replies s3 of
                           (s4, None) \<Rightarrow> (s4, None)
                         | (s4, Some e) \<Rightarrow>
                             (logging (LogError
                                ''Unexpected error in ZMQApplicationProxy._handle_reply'') s4,
                              None))))))"

text \<open>
  The names the module binds at top level: its imports (lines 39 to 54) and its
  classes. A name read in a method and bound neither there nor here raises NameError
  when it is evaluated.
\<close>

definition module_globals :: "string list" where
  "module_globals =
     [''logging'', ''time'', ''uuid'', ''urlparse'', ''httpserver'', ''httputil'', ''web'',
      ''stack_context'', ''native_str'', ''b'', ''zmq'', ''ZMQStream'', ''IOLoop'',
      ''DelayedCallback'', ''jsonapi'', ''ZMQApplicationProxy'',
      ''ZMQStreamingApplicationProxy'', ''ZMQRequestHandlerProxy'', ''ZMQHTTPRequest'',
      ''ZMQStreamingHTTPRequest'', ''ZMQApplication'']"

definition global_name :: "string \<Rightarrow> exn option" where
  "global_name n = (if n \<in> set module_globals then None else Some NameError)"

text \<open>
  \<open>try: ... except socket.error: pass; except: logging.error(msg)\<close>. When the body
  raises, Python evaluates \<open>socket.error\<close> to match the exception against it.
\<close>

definition except_socket_error :: "string \<Rightarrow> proxy \<times> exn option \<Rightarrow> proxy \<times> exn option" where
  "except_socket_error msg r =
     (case r of
        (s, None) \<Rightarrow> (s, None)
      | (s, Some e) \<Rightarrow>
          (case global_name ''socket'' of
             Some ne \<Rightarrow> (s, Some ne)
           | None \<Rightarrow>
               if e = SocketError then (s, None) else (logging (LogError msg) s, None)))"

definition write_and_flush :: "behaviour \<Rightarrow> handler \<Rightarrow> frame \<Rightarrow> proxy \<Rightarrow> proxy \<times> exn option" where
  "write_and_flush B h chunk s =
     (case handler_call B (HWrite h chunk) s of
        (s1, Some e) \<Rightarrow> (s1, Some e)
      | (s1, None) \<Rightarrow>
          handler_call B (HFlush h)
            (logging (HSetTransforms h) (logging (HSetHeadersWritten h) s1)))"

definition ZMQStreamingApplicationProxy_handle_reply ::
  "behaviour \<Rightarrow> frame list \<Rightarrow> proxy \<Rightarrow> proxy \<times> exn option" where
  "ZMQStreamingApplicationProxy_handle_reply B msg_list s =
     (let s1 = logging (LogDebug ''Handling reply'') s;
          len_msg_list = length msg_list
      in if len_msg_list < 2
         then (logging (LogError
                 ''Unexpected reply from proxy in ZMQStreamingApplicationProxy._handle_reply'') s1,
               None)
         else
           (let mid = msg_list ! 0;
                reply = msg_list ! 1
            in (case callbacks s1 mid of
                  None \<Rightarrow> (s1, None)
                | Some (h, dc) \<Rightarrow>
                    if reply = ''DATA'' \<and> len_msg_list = 3
                    then
                      (let s2 = (case dc of
                                   None \<Rightarrow> s1
                                 | Some d \<Rightarrow>
                                     (let s' = DelayedCallback_stop d s1
                                      in s'\<lparr>callbacks := (callbacks s')(mid \<mapsto> (h, None))\<rparr>))
                       in except_socket_error ''Unexpected write error''
                            (write_and_flush B h (msg_list ! 2) s2))
                    else if reply = ''FINISH''
                    then
                      (let s2 = s1\<lparr>callbacks := (callbacks s1)(mid := None)\<rparr>
                       in except_socket_error ''Unexpected finish error''
                            (handler_call B (HFinish h) s2))
                    else (s1, None))))"

definition handle_reply ::
  "proxy_class \<Rightarrow> behaviour \<Rightarrow> frame list \<Rightarrow> proxy \<Rightarrow> proxy \<times> exn option" where
  "handle_reply pc B msg_list s =
     (case pc of
        ZMQApplicationProxy \<Rightarrow> ZMQApplicationProxy_handle_reply B msg_list s
      | ZMQStreamingApplicationProxy \<Rightarrow> ZMQStreamingApplicationProxy_handle_reply B msg_list s)"

section \<open>Runs of a proxy on its event loop\<close>

text \<open>
  One turn of the loop is a request sent, a reply received or a DelayedCallback fired.
  An exception that leaves a callback goes to the loop; what the callback had done to
  the proxy by then stays done.
\<close>

datatype action =
    SendRequest http_request jvalue jvalue handler int frame
  | Reply "frame list"
  | TimerFires nat

definition proxy_step :: "lib \<Rightarrow> proxy_class \<Rightarrow> behaviour \<Rightarrow> action \<Rightarrow> proxy \<Rightarrow> proxy" where
  "proxy_step L pc B a s =
     (case a of
        SendRequest request args kwargs h timeout mid \<Rightarrow>
          (case send_request L request args kwargs h timeout mid s of
             Inl e \<Rightarrow> s
           | Inr (m, s1) \<Rightarrow> s1)
      | Reply msg_list \<Rightarrow> fst (handle_reply pc B msg_list s)
      | TimerFires d \<Rightarrow> fst (DelayedCallback_fire B d s))"

fun proxy_run :: "lib \<Rightarrow> proxy_class \<Rightarrow> behaviour \<Rightarrow> action list \<Rightarrow> proxy \<Rightarrow> proxy" where
  "proxy_run L pc B [] s = s"
| "proxy_run L pc B (a # as) s = proxy_run L pc B as (proxy_step L pc B a s)"

text \<open>The actions of a run that remove the entry of \<open>mid\<close>: it is registered before
  the action and not after it.\<close>

fun removals :: "lib \<Rightarrow> proxy_class \<Rightarrow> behaviour \<Rightarrow> frame \<Rightarrow> action list \<Rightarrow> proxy \<Rightarrow> action list" where
  "removals L pc B mid [] s = []"
| "removals L pc B mid (a # as) s =
     (let s1 = proxy_step L pc B a s
      in (if callbacks s mid \<noteq> None \<and> callbacks s1 mid = None then [a] else [])
         @ removals L pc B mid as s1)"

fun sent_ids :: "action list \<Rightarrow> frame list" where
  "sent_ids [] = []"
| "sent_ids (SendRequest request args kwargs h timeout mid # as) = mid # sent_ids as"
| "sent_ids (a # as) = sent_ids as"

fun is_send :: "action \<Rightarrow> bool" where
  "is_send (SendRequest request args kwargs h timeout mid) = True"
| "is_send a = False"

text \<open>The chunks written to a handler, in the order of the calls.\<close>

fun written :: "handler \<Rightarrow> event list \<Rightarrow> frame list" where
  "written h [] = []"
| "written h (HWrite g chunk # evs) = (if g = h then chunk # written h evs else written h evs)"
| "written h (ev # evs) = written h evs"

fun is_log :: "event \<Rightarrow> bool" where
  "is_log (LogDebug m) = True"
| "is_log (LogError m) = True"
| "is_log ev = False"

section \<open>A worked example\<close>

text \<open>
  The request \<open>GET /widgets/7\<close> of the end-to-end scenarios, a JSON codec that knows
  the one document this request needs, a splitter of a URI at its first question mark,
  and an application whose handlers answer \<open>ok\<close>.
\<close>

definition example_request :: http_request where
  "example_request =
     \<lparr> http_method = JStr ''GET'', uri = JStr ''/widgets/7'', version = JStr ''HTTP/1.1'',
       headers = JDict [(''Host'', JStr ''example.org'')], body = [],
       remote_ip = JStr ''127.0.0.1'', protocol = JStr ''http'', host = JStr ''example.org'',
       files = JDict [], arguments = JDict [] \<rparr>"

definition example_meta :: jvalue where
  "example_meta =
     request_meta example_request (headers example_request) (JList [JStr ''7'']) (JDict [])"

definition example_lib :: lib where
  "example_lib =
     \<lparr> dumps = (\<lambda>j. if j = example_meta then ''json of GET /widgets/7'' else ''null''),
       loads = (\<lambda>f. if f = ''json of GET /widgets/7'' then Some example_meta
                     else if f = ''null'' then Some JNull else None),
       urlsplit = (\<lambda>u. case u of
                     JStr s \<Rightarrow> Some (takeWhile (\<lambda>ch. ch \<noteq> CHR ''?'') s,
                                     drop 1 (dropWhile (\<lambda>ch. ch \<noteq> CHR ''?'') s))
                   | _ \<Rightarrow> None) \<rparr>"

definition example_app :: application where
  "example_app =
     \<lparr> http_request_class_setting = None,
       get_host_handlers = (\<lambda>rq. [\<lparr> regex_match = (\<lambda>p. take 9 p = ''/widgets/''),
                                      handler_class = (\<lambda>rq a k. [Write ''ok'' None, Finish]) \<rparr>]),
       redirect_handler_class = (\<lambda>rq a k. [Finish]),
       error_handler = (\<lambda>rq a k. [Write ''404'' None, Finish]) \<rparr>"

definition example_parsed :: zmq_http_request where
  "example_parsed =
     \<lparr> http_method = JStr ''GET'', uri = JStr ''/widgets/7'', version = JStr ''HTTP/1.1'',
       headers = JDict [(''Host'', JStr ''example.org'')], body = [],
       remote_ip = JStr ''127.0.0.1'', protocol = JStr ''http'', host = JStr ''example.org'',
       files = JDict [], arguments = JDict [],
       cls = ZMQHTTPRequest, path = ''/widgets/7'', query = [],
       idents = [''peer''], msg_id = ''id1'', chunks = [], write_callback = None \<rparr>"

text \<open>The proxy after it has sent this request for handler 7 with a timeout of 5000 ms
  under the message id \<open>id1\<close> (lemma \<open>example_send\<close> below).\<close>

definition example_pending :: proxy where
  "example_pending =
     \<lparr> callbacks = [''id1'' \<mapsto> (7, Some 0)], timers = [0 \<mapsto> (7, ''id1'')], next_timer = 1,
       proxy_stream = [[''|'', ''id1'', ''json of GET /widgets/7'']],
       trace = [LogDebug ''Sending request''] \<rparr>"

text \<open>Handlers that never raise, and handlers whose every call raises \<open>e\<close>.\<close>

definition never_raises :: behaviour where
  "never_raises = (\<lambda>evs ev. None)"

definition always_raises :: "exn \<Rightarrow> behaviour" where
  "always_raises e = (\<lambda>evs ev. Some e)"

section \<open>Malformed inbound messages\<close>

lemma index_of_None: "index_of x ys = None \<longleftrightarrow> x \<notin> set ys"
  by (induction ys) (auto split: option.splits)

lemma index_of_Some:
  "index_of x ys = Some i \<Longrightarrow> i < length ys \<and> ys ! i = x \<and> x \<notin> set (take i ys)"
proof (induction ys arbitrary: i)
  case Nil
  then show ?case by simp
next
  case (Cons y ys)
  then show ?case
    by (cases "y = x") (auto split: option.splits)
qed

lemma index_of_append:
  "x \<notin> set ps \<Longrightarrow> index_of x (ps @ x # rest) = Some (length ps)"
  by (induction ps) auto

lemma parse_request_short:
  "length msg_list < 4 \<Longrightarrow> ZMQApplication_parse_request L app msg_list = Inl IndexError"
  by (simp add: ZMQApplication_parse_request_def)

lemma parse_request_no_sentinel:
  "4 \<le> length msg_list \<Longrightarrow> ''|'' \<notin> set msg_list \<Longrightarrow>
   ZMQApplication_parse_request L app msg_list = Inl ValueError"
  using index_of_None [of "''|''" msg_list]
  by (simp add: ZMQApplication_parse_request_def)

text \<open>
  C1 (the part the code keeps). A frame list of fewer than four frames is logged and
  dropped: no reply is sent and no exception leaves the receive callback.
\<close>

lemma handle_request_short_dropped:
  "length msg_list < 4 \<Longrightarrow>
   ZMQApplication_handle_request L app msg_list st =
     (st\<lparr>service_log := service_log st @
        [LogDebug ''Handling request'',
         LogError ''Unexpected request message format in ZMQApplication._handle_request.'']\<rparr>,
      None)"
  by (simp add: ZMQApplication_handle_request_def parse_request_short)

text \<open>
  C1 (where the code departs from the claim). Four frames without the sentinel: the
  search for the sentinel raises ValueError, the callback catches IndexError only, and
  the ValueError leaves the receive callback; the malformed-message line is not logged.
\<close>

theorem handle_request_no_sentinel_escapes:
  "ZMQApplication_handle_request L app [''a'', ''b'', ''c'', ''d''] st =
     (st\<lparr>service_log := service_log st @ [LogDebug ''Handling request'']\<rparr>, Some ValueError)"
  by (simp add: ZMQApplication_handle_request_def ZMQApplication_parse_request_def)

section \<open>The identity prefix is echoed\<close>

lemma then_e_Inr: "then_e r f = Inr y \<longleftrightarrow> (\<exists>v. r = Inr v \<and> f v = Inr y)"
  by (cases r) (simp_all add: then_e_def)

lemma item_Inr: "item xs i = Inr v \<longleftrightarrow> i < length xs \<and> v = xs ! i"
  by (auto simp: item_def)

lemma init_Inr:
  "ZMQHTTPRequest_init L c m u v h b rip pr ho fs ar ids mid = Inr rq \<Longrightarrow>
   idents rq = ids \<and> msg_id rq = mid \<and> cls rq = c \<and> chunks rq = [] \<and> write_callback rq = None"
  by (auto simp: ZMQHTTPRequest_init_def split: option.splits)

lemma parse_request_Inr:
  assumes "ZMQApplication_parse_request L app msg_list = Inr (rq, args, kwargs)"
  shows "\<exists>i. index_of ''|'' msg_list = Some i \<and> i + 1 < length msg_list \<and>
             idents rq = take i msg_list \<and> msg_id rq = msg_list ! (i + 1)"
proof -
  from assms obtain i where i: "index_of ''|'' msg_list = Some i"
    by (auto simp: ZMQApplication_parse_request_def Let_def split: if_splits option.splits)
  with assms show ?thesis
    by (auto simp: ZMQApplication_parse_request_def Let_def then_e_Inr item_Inr
        split: if_splits dest!: init_Inr)
qed

lemma run_callback_stream: "stream (run_callback cb st) = stream st"
  by (cases cb) (simp add: run_callback_def Let_def)

text \<open>The three reply shapes, as the request representations send them.\<close>

lemma bulk_finish_frames:
  "stream (snd (ZMQHTTPRequest_finish rq st)) = stream st @ [idents rq @ [msg_id rq] @ chunks rq]"
  by (simp add: ZMQHTTPRequest_finish_def create_msg_list_def run_callback_stream Let_def
      split: option.splits)

lemma streaming_write_frames:
  "stream (snd (ZMQStreamingHTTPRequest_write rq chunk cb st)) =
     stream st @ [idents rq @ [msg_id rq] @ [''DATA'', chunk]]"
  by (simp add: ZMQStreamingHTTPRequest_write_def create_msg_list_def run_callback_stream Let_def
      split: option.splits)

lemma streaming_finish_frames:
  "stream (snd (ZMQStreamingHTTPRequest_finish rq st)) =
     stream st @ [idents rq @ [msg_id rq] @ [''FINISH'']]"
  by (simp add: ZMQStreamingHTTPRequest_finish_def create_msg_list_def Let_def)

lemma request_op_run_sound:
  assumes "request_op_run oper rq st = (rq1, st1)"
  shows "idents rq1 = idents rq \<and> msg_id rq1 = msg_id rq \<and> cls rq1 = cls rq \<and>
         (\<exists>new. stream st1 = stream st @ new \<and>
            (\<forall>m\<in>set new. take (length (idents rq) + 1) m = idents rq @ [msg_id rq]))"
  using assms
  by (auto simp: request_op_run_def ZMQHTTPRequest_write_def ZMQHTTPRequest_finish_def
      ZMQStreamingHTTPRequest_write_def ZMQStreamingHTTPRequest_finish_def create_msg_list_def
      run_callback_stream Let_def
      split: request_op.splits http_request_class.splits option.splits)

lemma request_ops_run_sound:
  "request_ops_run opers rq st = (rq1, st1) \<Longrightarrow>
   idents rq1 = idents rq \<and> msg_id rq1 = msg_id rq \<and> cls rq1 = cls rq \<and>
   (\<exists>new. stream st1 = stream st @ new \<and>
      (\<forall>m\<in>set new. take (length (idents rq) + 1) m = idents rq @ [msg_id rq]))"
proof (induction opers arbitrary: rq st)
  case Nil
  then show ?case by simp
next
  case (Cons oper opers)
  obtain rq2 st2 where step: "request_op_run oper rq st = (rq2, st2)"
    by (cases "request_op_run oper rq st")
  with Cons.prems have rest: "request_ops_run opers rq2 st2 = (rq1, st1)" by simp
  from request_op_run_sound [OF step] Cons.IH [OF rest] show ?case
    by auto
qed

text \<open>
  C6. Let the back end decode an inbound frame list whose frames before the first
  sentinel are \<open>P\<close> and whose frame after it is \<open>I\<close>. Then the request carries \<open>P\<close>
  and \<open>I\<close>, and whatever sequence of writes and finishes a handler performs on it, bulk
  or streaming, every frame list sent begins with the frames of \<open>P\<close>, in order,
  followed at once by \<open>I\<close>.
\<close>

theorem identity_prefix_echo:
  assumes "ZMQApplication_parse_request L app (P @ ''|'' # I # rest) = Inr (rq, args, kwargs)"
    and "''|'' \<notin> set P"
  shows "idents rq = P \<and> msg_id rq = I \<and>
         (\<forall>opers st. \<exists>new.
            stream (snd (request_ops_run opers rq st)) = stream st @ new \<and>
            (\<forall>m\<in>set new. take (length P + 1) m = P @ [I]))"
proof -
  from parse_request_Inr [OF assms(1)] obtain i where
    i: "index_of ''|'' (P @ ''|'' # I # rest) = Some i"
    and ids: "idents rq = take i (P @ ''|'' # I # rest)"
    and mid: "msg_id rq = (P @ ''|'' # I # rest) ! (i + 1)"
    by blast
  from index_of_append [OF assms(2), of "I # rest"] i have "i = length P" by simp
  with ids mid have pre: "idents rq = P" "msg_id rq = I"
    by (simp_all add: nth_append)
  have "\<exists>new. stream (snd (request_ops_run opers rq st)) = stream st @ new \<and>
          (\<forall>m\<in>set new. take (length P + 1) m = P @ [I])" for opers st
    using request_ops_run_sound [of opers rq st] pre
    by (cases "request_ops_run opers rq st") auto
  with pre show ?thesis by blast
qed

lemma example_parse:
  "ZMQApplication_parse_request example_lib example_app
     ([''peer''] @ ''|'' # ''id1'' # [''json of GET /widgets/7'']) =
   Inr (example_parsed, JList [JStr ''7''], JDict [])"
  by (simp add: ZMQApplication_parse_request_def example_lib_def example_app_def example_meta_def
      example_request_def example_parsed_def request_meta_def then_e_def item_def getitem_def
      ZMQHTTPRequest_init_def)

theorem identity_prefix_echo_witness:
  "ZMQApplication_parse_request example_lib example_app
     ([''peer''] @ ''|'' # ''id1'' # [''json of GET /widgets/7'']) =
     Inr (example_parsed, JList [JStr ''7''], JDict []) \<and>
   ''|'' \<notin> set [''peer''] \<and>
   idents example_parsed = [''peer''] \<and> msg_id example_parsed = ''id1'' \<and>
   (\<exists>new. stream (snd (request_ops_run [Write ''a'' None, Write ''b'' None, Finish]
                          example_parsed \<lparr>stream = [], service_log = []\<rparr>)) = [] @ new \<and>
          (\<forall>m\<in>set new. take (length [''peer''] + 1) m = [''peer''] @ [''id1''])) \<and>
   stream (snd (request_ops_run [Write ''a'' None, Write ''b'' None, Finish]
                  example_parsed \<lparr>stream = [], service_log = []\<rparr>)) =
     [[''peer'', ''id1'', ''a'', ''b'']]"
proof -
  have nin: "''|'' \<notin> set [''peer'']" by simp
  have run: "stream (snd (request_ops_run [Write ''a'' None, Write ''b'' None, Finish]
                  example_parsed \<lparr>stream = [], service_log = []\<rparr>)) =
     [[''peer'', ''id1'', ''a'', ''b'']]"
    by (simp add: request_op_run_def ZMQHTTPRequest_write_def ZMQHTTPRequest_finish_def
        create_msg_list_def example_parsed_def)
  from identity_prefix_echo [OF example_parse nin] have
    "idents example_parsed = [''peer''] \<and> msg_id example_parsed = ''id1'' \<and>
     (\<exists>new. stream (snd (request_ops_run [Write ''a'' None, Write ''b'' None, Finish]
                          example_parsed \<lparr>stream = [], service_log = []\<rparr>)) =
              stream \<lparr>stream = [], service_log = []\<rparr> @ new \<and>
          (\<forall>m\<in>set new. take (length [''peer''] + 1) m = [''peer''] @ [''id1'']))"
    by blast
  with example_parse nin run show ?thesis by simp
qed

section \<open>Front end: what the steps keep\<close>

lemma logging_simps [simp]:
  "callbacks (logging ev s) = callbacks s"
  "timers (logging ev s) = timers s"
  "next_timer (logging ev s) = next_timer s"
  "proxy_stream (logging ev s) = proxy_stream s"
  "trace (logging ev s) = trace s @ [ev]"
  by (simp_all add: logging_def)

lemma handler_call_eq: "handler_call B ev s = (logging ev s, B (trace s) ev)"
  by (simp add: handler_call_def logging_def)

lemma stop_simps [simp]:
  "callbacks (DelayedCallback_stop d s) = callbacks s"
  "timers (DelayedCallback_stop d s) = (timers s)(d := None)"
  "trace (DelayedCallback_stop d s) = trace s"
  by (simp_all add: DelayedCallback_stop_def)

lemma write_replies_frame:
  "write_replies B h rs s = (s1, e) \<Longrightarrow>
   callbacks s1 = callbacks s \<and> timers s1 = timers s \<and> next_timer s1 = next_timer s \<and>
   proxy_stream s1 = proxy_stream s"
proof (induction rs arbitrary: s)
  case Nil
  then show ?case by simp
next
  case (Cons r rs)
  then show ?case
    by (cases "B (trace s) (HWrite h r)") (auto simp: handler_call_eq)
qed

lemma forward_replies_frame:
  "forward_replies B h rs s = (s1, e) \<Longrightarrow>
   callbacks s1 = callbacks s \<and> timers s1 = timers s \<and> next_timer s1 = next_timer s \<and>
   proxy_stream s1 = proxy_stream s"
  by (cases "write_replies B h rs s")
     (auto simp: forward_replies_def handler_call_eq split: option.splits dest: write_replies_frame)

lemma example_send:
  "send_request example_lib example_request (JList [JStr ''7'']) (JDict []) 7 5000 ''id1''
     ZMQApplicationProxy_init = Inr (''id1'', example_pending)"
  by (simp add: send_request_def dict_of_def example_request_def example_lib_def example_meta_def
      request_meta_def request_msg_list_def ZMQApplicationProxy_init_def DelayedCallback_start_def
      logging_def example_pending_def)

section \<open>Replies that match no pending request\<close>

lemma bulk_dropped:
  assumes "length msg_list < 2 \<or> callbacks s (msg_list ! 0) = None"
  shows "\<exists>logs. ZMQApplicationProxy_handle_reply B msg_list s =
                  (s\<lparr>trace := trace s @ logs\<rparr>, None) \<and>
           (\<forall>ev\<in>set logs. is_log ev)"
proof (cases "length msg_list < 2")
  case True
  then have "ZMQApplicationProxy_handle_reply B msg_list s =
      (s\<lparr>trace := trace s @ [LogDebug ''Handling reply'',
         LogError ''Unexpected reply from proxy in ZMQApplicationProxy._handle_reply'']\<rparr>, None)"
    by (simp add: ZMQApplicationProxy_handle_reply_def logging_def)
  then show ?thesis
    by (intro exI [of _ "[LogDebug ''Handling reply'',
         LogError ''Unexpected reply from proxy in ZMQApplicationProxy._handle_reply'']"]) simp
next
  case False
  with assms have "ZMQApplicationProxy_handle_reply B msg_list s =
      (s\<lparr>trace := trace s @ [LogDebug ''Handling reply'']\<rparr>, None)"
    by (simp add: ZMQApplicationProxy_handle_reply_def Let_def logging_def)
  then show ?thesis by (intro exI [of _ "[LogDebug ''Handling reply'']"]) simp
qed

lemma streaming_dropped:
  assumes "length msg_list < 2 \<or> callbacks s (msg_list ! 0) = None"
  shows "\<exists>logs. ZMQStreamingApplicationProxy_handle_reply B msg_list s =
                  (s\<lparr>trace := trace s @ logs\<rparr>, None) \<and>
           (\<forall>ev\<in>set logs. is_log ev)"
proof (cases "length msg_list < 2")
  case True
  then have "ZMQStreamingApplicationProxy_handle_reply B msg_list s =
      (s\<lparr>trace := trace s @ [LogDebug ''Handling reply'',
         LogError ''Unexpected reply from proxy in ZMQStreamingApplicationProxy._handle_reply'']\<rparr>,
       None)"
    by (simp add: ZMQStreamingApplicationProxy_handle_reply_def logging_def)
  then show ?thesis
    by (intro exI [of _ "[LogDebug ''Handling reply'',
         LogError ''Unexpected reply from proxy in ZMQStreamingApplicationProxy._handle_reply'']"])
       simp
next
  case False
  with assms have "ZMQStreamingApplicationProxy_handle_reply B msg_list s =
      (s\<lparr>trace := trace s @ [LogDebug ''Handling reply'']\<rparr>, None)"
    by (simp add: ZMQStreamingApplicationProxy_handle_reply_def Let_def logging_def)
  then show ?thesis by (intro exI [of _ "[LogDebug ''Handling reply'']"]) simp
qed

text \<open>
  C9. A reply of fewer than two frames, or one whose first frame is no registered
  message id, is dropped by either proxy: the proxy is as before but for log lines
  (registry, timers and stream unchanged, no handler method called), and no exception
  leaves the callback.
\<close>

theorem unmatched_reply_dropped:
  assumes "length msg_list < 2 \<or> callbacks s (msg_list ! 0) = None"
  shows "\<exists>logs. handle_reply pc B msg_list s = (s\<lparr>trace := trace s @ logs\<rparr>, None) \<and>
           (\<forall>ev\<in>set logs. is_log ev)"
  using bulk_dropped [OF assms, of B] streaming_dropped [OF assms, of B]
  by (cases pc) (simp_all add: handle_reply_def)

theorem unmatched_reply_dropped_witness:
  "(length [''late'', ''FINISH''] < 2 \<or> callbacks example_pending ([''late'', ''FINISH''] ! 0) = None) \<and>
   (\<exists>logs. handle_reply ZMQStreamingApplicationProxy (always_raises SocketError)
              [''late'', ''FINISH''] example_pending =
            (example_pending\<lparr>trace := trace example_pending @ logs\<rparr>, None) \<and>
          (\<forall>ev\<in>set logs. is_log ev)) \<and>
   (length [''id1''] < 2 \<or> callbacks example_pending ([''id1''] ! 0) = None) \<and>
   (\<exists>logs. handle_reply ZMQApplicationProxy (always_raises SocketError) [''id1''] example_pending =
            (example_pending\<lparr>trace := trace example_pending @ logs\<rparr>, None) \<and>
          (\<forall>ev\<in>set logs. is_log ev))"
proof -
  have a: "length [''late'', ''FINISH''] < 2 \<or>
           callbacks example_pending ([''late'', ''FINISH''] ! 0) = None"
    by (simp add: example_pending_def)
  have b: "length [''id1''] < 2 \<or> callbacks example_pending ([''id1''] ! 0) = None"
    by simp
  from a b unmatched_reply_dropped [OF a] unmatched_reply_dropped [OF b] show ?thesis
    by blast
qed

section \<open>The bulk reply path takes the entry before it forwards\<close>

lemma bulk_claims:
  assumes len: "2 \<le> length msg_list" and reg: "callbacks s (msg_list ! 0) = Some (h, dc)"
  shows "\<exists>s0 s4 e4.
           s0 = (case dc of None \<Rightarrow> (logging (LogDebug ''Handling reply'') s)
                    \<lparr>callbacks := (callbacks s)(msg_list ! 0 := None)\<rparr>
                 | Some d \<Rightarrow> DelayedCallback_stop d ((logging (LogDebug ''Handling reply'') s)
                    \<lparr>callbacks := (callbacks s)(msg_list ! 0 := None)\<rparr>)) \<and>
           forward_replies B h (drop 1 msg_list) s0 = (s4, e4) \<and>
           ZMQApplicationProxy_handle_reply B msg_list s =
             ((if e4 = None then s4
               else logging (LogError ''Unexpected error in ZMQApplicationProxy._handle_reply'') s4),
              None)"
  using len reg
  by (cases "forward_replies B h (drop 1 msg_list)
        (case dc of None \<Rightarrow> (logging (LogDebug ''Handling reply'') s)
                    \<lparr>callbacks := (callbacks s)(msg_list ! 0 := None)\<rparr>
                 | Some d \<Rightarrow> DelayedCallback_stop d ((logging (LogDebug ''Handling reply'') s)
                    \<lparr>callbacks := (callbacks s)(msg_list ! 0 := None)\<rparr>))")
     (auto simp: ZMQApplicationProxy_handle_reply_def Let_def split: option.splits)

lemma fire_stopped: "timers s d = None \<Longrightarrow> DelayedCallback_fire B d s = (s, None)"
  by (simp add: DelayedCallback_fire_def)

lemma bulk_unregistered:
  "2 \<le> length msg_list \<Longrightarrow> callbacks s (msg_list ! 0) = None \<Longrightarrow>
   ZMQApplicationProxy_handle_reply B msg_list s = (logging (LogDebug ''Handling reply'') s, None)"
  by (simp add: ZMQApplicationProxy_handle_reply_def Let_def)

text \<open>
  C10. A reply of two or more frames whose first frame is a registered message id: the
  bulk proxy removes the entry and stops its timer first, in a state \<open>s0\<close> to which
  nothing has been forwarded yet, and forwards the chunks from there. No exception
  leaves the callback whatever the handler raises, the entry stays removed and the
  timer stopped, so the same reply delivered again is dropped and the timer, fired,
  does nothing.
\<close>

theorem bulk_reply_removes_entry_first:
  assumes "2 \<le> length msg_list" and "callbacks s (msg_list ! 0) = Some (h, dc)"
  shows "\<exists>s0 s4 e4 s1.
     callbacks s0 = (callbacks s)(msg_list ! 0 := None) \<and>
     timers s0 = (case dc of None \<Rightarrow> timers s | Some d \<Rightarrow> (timers s)(d := None)) \<and>
     trace s0 = trace s @ [LogDebug ''Handling reply''] \<and>
     forward_replies B h (drop 1 msg_list) s0 = (s4, e4) \<and>
     s1 = (if e4 = None then s4
           else logging (LogError ''Unexpected error in ZMQApplicationProxy._handle_reply'') s4) \<and>
     ZMQApplicationProxy_handle_reply B msg_list s = (s1, None) \<and>
     callbacks s1 = (callbacks s)(msg_list ! 0 := None) \<and>
     timers s1 = (case dc of None \<Rightarrow> timers s | Some d \<Rightarrow> (timers s)(d := None)) \<and>
     (\<forall>B2. ZMQApplicationProxy_handle_reply B2 msg_list s1 =
             (logging (LogDebug ''Handling reply'') s1, None)) \<and>
     (\<forall>B2 d. dc = Some d \<longrightarrow> DelayedCallback_fire B2 d s1 = (s1, None))"
proof -
  from bulk_claims [OF assms, of B] obtain s0 s4 e4 where
    s0: "s0 = (case dc of None \<Rightarrow> (logging (LogDebug ''Handling reply'') s)
                    \<lparr>callbacks := (callbacks s)(msg_list ! 0 := None)\<rparr>
                 | Some d \<Rightarrow> DelayedCallback_stop d ((logging (LogDebug ''Handling reply'') s)
                    \<lparr>callbacks := (callbacks s)(msg_list ! 0 := None)\<rparr>))"
    and fw: "forward_replies B h (drop 1 msg_list) s0 = (s4, e4)"
    and res: "ZMQApplicationProxy_handle_reply B msg_list s =
             ((if e4 = None then s4
               else logging (LogError ''Unexpected error in ZMQApplicationProxy._handle_reply'') s4),
              None)"
    by blast
  define s1 where "s1 = (if e4 = None then s4
               else logging (LogError ''Unexpected error in ZMQApplicationProxy._handle_reply'') s4)"
  have c0: "callbacks s0 = (callbacks s)(msg_list ! 0 := None)"
    and t0: "timers s0 = (case dc of None \<Rightarrow> timers s | Some d \<Rightarrow> (timers s)(d := None))"
    and tr0: "trace s0 = trace s @ [LogDebug ''Handling reply'']"
    by (simp_all add: s0 split: option.splits)
  from forward_replies_frame [OF fw] have c4: "callbacks s4 = callbacks s0" "timers s4 = timers s0"
    by simp_all
  have c1: "callbacks s1 = (callbacks s)(msg_list ! 0 := None)"
    and t1: "timers s1 = (case dc of None \<Rightarrow> timers s | Some d \<Rightarrow> (timers s)(d := None))"
    by (simp_all add: s1_def c4 c0 t0)
  have again: "ZMQApplicationProxy_handle_reply B2 msg_list s1 =
             (logging (LogDebug ''Handling reply'') s1, None)" for B2
    by (rule bulk_unregistered [OF assms(1)]) (simp add: c1)
  have fire: "dc = Some d \<longrightarrow> DelayedCallback_fire B2 d s1 = (s1, None)" for B2 d
    by (auto intro!: fire_stopped simp: t1)
  have res1: "ZMQApplicationProxy_handle_reply B msg_list s = (s1, None)"
    by (simp add: res s1_def)
  show ?thesis
    apply (rule exI [of _ s0])
    apply (rule exI [of _ s4])
    apply (rule exI [of _ e4])
    apply (rule exI [of _ s1])
    using c0 t0 tr0 fw res1 c1 t1 again fire s1_def
    apply (intro conjI allI)
    apply assumption+
    done
qed

theorem bulk_reply_removes_entry_first_witness:
  "2 \<le> length [''id1'', ''ok''] \<and>
   callbacks example_pending ([''id1'', ''ok''] ! 0) = Some (7, Some 0) \<and>
   (\<exists>s1. ZMQApplicationProxy_handle_reply (always_raises (OtherError ''boom''))
            [''id1'', ''ok''] example_pending = (s1, None) \<and>
          callbacks s1 ''id1'' = None \<and> timers s1 0 = None \<and>
          ZMQApplicationProxy_handle_reply never_raises [''id1'', ''ok''] s1 =
            (logging (LogDebug ''Handling reply'') s1, None) \<and>
          DelayedCallback_fire never_raises 0 s1 = (s1, None))"
proof -
  have a: "2 \<le> length [''id1'', ''ok'']" by simp
  have b: "callbacks example_pending ([''id1'', ''ok''] ! 0) = Some (7, Some 0)"
    by (simp add: example_pending_def)
  from bulk_reply_removes_entry_first [OF a b, of "always_raises (OtherError ''boom'')"]
  obtain s1 where
    "ZMQApplicationProxy_handle_reply (always_raises (OtherError ''boom''))
            [''id1'', ''ok''] example_pending = (s1, None)"
    "callbacks s1 = (callbacks example_pending)([''id1'', ''ok''] ! 0 := None)"
    "timers s1 = (case Some 0 of None \<Rightarrow> timers example_pending
                  | Some d \<Rightarrow> (timers example_pending)(d := None))"
    "\<forall>B2. ZMQApplicationProxy_handle_reply B2 [''id1'', ''ok''] s1 =
             (logging (LogDebug ''Handling reply'') s1, None)"
    "\<forall>B2 d. Some 0 = Some d \<longrightarrow> DelayedCallback_fire B2 d s1 = (s1, None)"
    by (elim exE conjE) 
  with a b show ?thesis by (intro conjI exI [of _ s1]) simp_all
qed

section \<open>Streaming replies: FINISH and the other shapes\<close>

lemma except_socket_error_frame:
  "except_socket_error msg (s, e) = (s1, e1) \<Longrightarrow>
   callbacks s1 = callbacks s \<and> timers s1 = timers s \<and>
   (\<exists>post. trace s1 = trace s @ post \<and> (\<forall>ev\<in>set post. is_log ev))"
  by (auto simp: except_socket_error_def split: option.splits if_splits)

lemma streaming_finish_shape:
  assumes "2 \<le> length msg_list" and "callbacks s (msg_list ! 0) = Some (h, dc)"
    and "msg_list ! 1 = ''FINISH''"
  shows "ZMQStreamingApplicationProxy_handle_reply B msg_list s =
         except_socket_error ''Unexpected finish error''
           (handler_call B (HFinish h)
              ((logging (LogDebug ''Handling reply'') s)
                 \<lparr>callbacks := (callbacks s)(msg_list ! 0 := None)\<rparr>))"
  using assms by (simp add: ZMQStreamingApplicationProxy_handle_reply_def Let_def)

lemma streaming_other_shape:
  assumes "2 \<le> length msg_list" and "callbacks s (msg_list ! 0) = Some (h, dc)"
    and "msg_list ! 1 \<noteq> ''FINISH''" and "\<not> (msg_list ! 1 = ''DATA'' \<and> length msg_list = 3)"
  shows "ZMQStreamingApplicationProxy_handle_reply B msg_list s =
         (s\<lparr>trace := trace s @ [LogDebug ''Handling reply'']\<rparr>, None)"
  using assms by (auto simp: ZMQStreamingApplicationProxy_handle_reply_def Let_def logging_def)

lemma streaming_finish_step:
  assumes "2 \<le> length msg_list" and "callbacks s (msg_list ! 0) = Some (h, dc)"
    and fin: "msg_list ! 1 = ''FINISH''"
  shows "callbacks (fst (ZMQStreamingApplicationProxy_handle_reply B msg_list s)) =
              (callbacks s)(msg_list ! 0 := None) \<and>
         (\<exists>post. trace (fst (ZMQStreamingApplicationProxy_handle_reply B msg_list s)) =
                      trace s @ [LogDebug ''Handling reply'', HFinish h] @ post \<and>
                    (\<forall>ev\<in>set post. is_log ev))"
proof -
  let ?s2 = "(logging (LogDebug ''Handling reply'') s)
                 \<lparr>callbacks := (callbacks s)(msg_list ! 0 := None)\<rparr>"
  obtain s1 e1 where r: "ZMQStreamingApplicationProxy_handle_reply B msg_list s = (s1, e1)"
    by (cases "ZMQStreamingApplicationProxy_handle_reply B msg_list s")
  with streaming_finish_shape [OF assms(1,2) fin, of B]
  have "except_socket_error ''Unexpected finish error''
          (logging (HFinish h) ?s2, B (trace ?s2) (HFinish h)) = (s1, e1)"
    by (simp add: handler_call_eq)
  from except_socket_error_frame [OF this]
  have "callbacks s1 = (callbacks s)(msg_list ! 0 := None)"
    and "\<exists>post. trace s1 = trace s @ [LogDebug ''Handling reply'', HFinish h] @ post \<and>
                (\<forall>ev\<in>set post. is_log ev)"
    by simp_all
  with r show ?thesis by simp
qed

text \<open>
  C3, as the code has it. On the streaming proxy, a reply of two or more frames whose
  first frame is a registered message id and whose second frame is \<open>FINISH\<close> removes
  the entry and finishes the handler, whatever the number of frames. When the second
  frame is neither \<open>FINISH\<close> nor \<open>DATA\<close> in a list of exactly three frames, the reply
  is dropped without a warning: the proxy is as before but for the debug line that
  every reply gets.
\<close>

theorem streaming_finish_any_length:
  assumes "2 \<le> length msg_list" and "callbacks s (msg_list ! 0) = Some (h, dc)"
  shows "(msg_list ! 1 = ''FINISH'' \<longrightarrow>
            callbacks (fst (ZMQStreamingApplicationProxy_handle_reply B msg_list s)) =
              (callbacks s)(msg_list ! 0 := None) \<and>
            (\<exists>post. trace (fst (ZMQStreamingApplicationProxy_handle_reply B msg_list s)) =
                      trace s @ [LogDebug ''Handling reply'', HFinish h] @ post \<and>
                    (\<forall>ev\<in>set post. is_log ev))) \<and>
         (msg_list ! 1 \<noteq> ''FINISH'' \<and> \<not> (msg_list ! 1 = ''DATA'' \<and> length msg_list = 3) \<longrightarrow>
            ZMQStreamingApplicationProxy_handle_reply B msg_list s =
              (s\<lparr>trace := trace s @ [LogDebug ''Handling reply'']\<rparr>, None))"
  using streaming_finish_step [OF assms, of B] streaming_other_shape [OF assms, of B]
  by blast

lemma ex_reg: "callbacks example_pending ''id1'' = Some (7, Some 0)"
  by (simp add: example_pending_def)

theorem streaming_finish_any_length_witness:
  "2 \<le> length [''id1'', ''FINISH'', ''extra''] \<and>
   callbacks example_pending ([''id1'', ''FINISH'', ''extra''] ! 0) = Some (7, Some 0) \<and>
   [''id1'', ''FINISH'', ''extra''] ! 1 = ''FINISH'' \<and>
   callbacks (fst (ZMQStreamingApplicationProxy_handle_reply never_raises
                     [''id1'', ''FINISH'', ''extra''] example_pending)) ''id1'' = None \<and>
   (\<exists>post. trace (fst (ZMQStreamingApplicationProxy_handle_reply never_raises
                     [''id1'', ''FINISH'', ''extra''] example_pending)) =
              trace example_pending @ [LogDebug ''Handling reply'', HFinish 7] @ post \<and>
            (\<forall>ev\<in>set post. is_log ev)) \<and>
   2 \<le> length [''id1'', ''DATA''] \<and>
   callbacks example_pending ([''id1'', ''DATA''] ! 0) = Some (7, Some 0) \<and>
   [''id1'', ''DATA''] ! 1 \<noteq> ''FINISH'' \<and>
   \<not> ([''id1'', ''DATA''] ! 1 = ''DATA'' \<and> length [''id1'', ''DATA''] = 3) \<and>
   ZMQStreamingApplicationProxy_handle_reply never_raises [''id1'', ''DATA''] example_pending =
     (example_pending\<lparr>trace := trace example_pending @ [LogDebug ''Handling reply'']\<rparr>, None)"
proof -
  have a: "2 \<le> length [''id1'', ''FINISH'', ''extra'']" by simp
  have b: "callbacks example_pending ([''id1'', ''FINISH'', ''extra''] ! 0) = Some (7, Some 0)"
    by (simp add: ex_reg)
  have c: "2 \<le> length [''id1'', ''DATA'']" by simp
  have d: "callbacks example_pending ([''id1'', ''DATA''] ! 0) = Some (7, Some 0)"
    by (simp add: ex_reg)
  from streaming_finish_any_length [OF a b, of never_raises]
       streaming_finish_any_length [OF c d, of never_raises] a b c d
  show ?thesis by simp
qed

text \<open>
  C3 as stated fails: with \<open>id1\<close> pending, the three frames \<open>[id1, FINISH, extra]\<close>
  remove the entry and finish handler 7, and the reply \<open>[id1, BOGUS]\<close> is dropped with
  the debug line only, no warning.
\<close>

theorem streaming_finish_counterexample:
  "send_request example_lib example_request (JList [JStr ''7'']) (JDict []) 7 5000 ''id1''
     ZMQApplicationProxy_init = Inr (''id1'', example_pending) \<and>
   length [''id1'', ''FINISH'', ''extra''] \<noteq> 2 \<and>
   ZMQStreamingApplicationProxy_handle_reply never_raises
     [''id1'', ''FINISH'', ''extra''] example_pending =
     (\<lparr> callbacks = Map.empty, timers = [0 \<mapsto> (7, ''id1'')], next_timer = 1,
        proxy_stream = [[''|'', ''id1'', ''json of GET /widgets/7'']],
        trace = [LogDebug ''Sending request'', LogDebug ''Handling reply'', HFinish 7] \<rparr>, None) \<and>
   ZMQStreamingApplicationProxy_handle_reply never_raises [''id1'', ''BOGUS''] example_pending =
     (\<lparr> callbacks = [''id1'' \<mapsto> (7, Some 0)], timers = [0 \<mapsto> (7, ''id1'')], next_timer = 1,
        proxy_stream = [[''|'', ''id1'', ''json of GET /widgets/7'']],
        trace = [LogDebug ''Sending request'', LogDebug ''Handling reply''] \<rparr>, None)"
  by (simp add: example_send)
     (simp add: ZMQStreamingApplicationProxy_handle_reply_def example_pending_def never_raises_def
      logging_def handler_call_def except_socket_error_def Let_def)

section \<open>A handler that raises on the streaming path\<close>

text \<open>
  C4 (where the code departs from the claim). The module does not import \<open>socket\<close>,
  so matching the exception against \<open>socket.error\<close> raises NameError: when the
  handler's write, or its finish, raises the connection-reset error, a NameError leaves
  \<open>_handle_reply\<close> into the receive callback of the stream.
\<close>

theorem streaming_socket_error_escapes:
  "ZMQStreamingApplicationProxy_handle_reply (always_raises SocketError)
     [''id1'', ''DATA'', ''chunk''] example_pending =
   (\<lparr> callbacks = [''id1'' \<mapsto> (7, None)], timers = Map.empty, next_timer = 1,
       proxy_stream = [[''|'', ''id1'', ''json of GET /widgets/7'']],
       trace = [LogDebug ''Sending request'', LogDebug ''Handling reply'', HWrite 7 ''chunk''] \<rparr>,
    Some NameError) \<and>
   ZMQStreamingApplicationProxy_handle_reply (always_raises SocketError)
     [''id1'', ''FINISH''] example_pending =
   (\<lparr> callbacks = Map.empty, timers = [0 \<mapsto> (7, ''id1'')], next_timer = 1,
       proxy_stream = [[''|'', ''id1'', ''json of GET /widgets/7'']],
       trace = [LogDebug ''Sending request'', LogDebug ''Handling reply'', HFinish 7] \<rparr>,
    Some NameError)"
  by (simp add: ZMQStreamingApplicationProxy_handle_reply_def example_pending_def always_raises_def
      logging_def handler_call_def write_and_flush_def except_socket_error_def global_name_def
      module_globals_def DelayedCallback_stop_def Let_def)

section \<open>The timeout callback\<close>

lemma timeout_signals_without_entry:
  "callbacks s mid = None \<Longrightarrow>
   trace (fst (handle_timeout B h mid s)) =
     trace s @ HSendError h 504 #
       (if B (trace s) (HSendError h 504) = None
        then [LogError ''Unexpected error removing callbacks''] else [])"
  by (simp add: handle_timeout_def handler_call_eq split: option.splits)

text \<open>When \<open>send_error\<close> raises (the client has gone), the callback ends there: the
  entry it was to remove stays in the registry.\<close>

lemma timeout_send_error_raises_keeps_entry:
  "DelayedCallback_fire (always_raises (OtherError ''Stream is closed'')) 0 example_pending =
   (\<lparr> callbacks = [''id1'' \<mapsto> (7, Some 0)], timers = Map.empty, next_timer = 1,
       proxy_stream = [[''|'', ''id1'', ''json of GET /widgets/7'']],
       trace = [LogDebug ''Sending request'', HSendError 7 504] \<rparr>,
    Some (OtherError ''Stream is closed''))"
  by (simp add: DelayedCallback_fire_def handle_timeout_def handler_call_def example_pending_def
      always_raises_def)

text \<open>When the entry is there and \<open>send_error\<close> returns, the callback does what the
  claim says: the handler is sent the 504 and the entry is removed.\<close>

lemma timeout_removes_entry:
  assumes "timers s d = Some (h, mid)" and "callbacks s mid = Some cb"
    and "B (trace s) (HSendError h 504) = None"
  shows "DelayedCallback_fire B d s =
         (s\<lparr>timers := (timers s)(d := None), trace := trace s @ [HSendError h 504],
            callbacks := (callbacks s)(mid := None)\<rparr>, None)"
  using assms
  by (simp add: DelayedCallback_fire_def handle_timeout_def handler_call_def)

text \<open>
  C2 (where the code departs from the claim). The callback calls \<open>send_error(504)\<close>
  before it looks for the entry, and the \<open>FINISH\<close> branch of the streaming proxy
  removes the entry without stopping the timer. So: a request sent with a timeout of
  5000 ms, answered by \<open>[id1, FINISH]\<close>, then the timer firing: the handler, already
  finished, is sent a 504, and the missing entry is logged as an error.
\<close>

theorem timeout_after_finish_sends_504:
  "proxy_run example_lib ZMQStreamingApplicationProxy never_raises
     [SendRequest example_request (JList [JStr ''7'']) (JDict []) 7 5000 ''id1'',
      Reply [''id1'', ''FINISH''], TimerFires 0] ZMQApplicationProxy_init =
   \<lparr> callbacks = Map.empty, timers = Map.empty, next_timer = 1,
     proxy_stream = [[''|'', ''id1'', ''json of GET /widgets/7'']],
     trace = [LogDebug ''Sending request'', LogDebug ''Handling reply'', HFinish 7,
              HSendError 7 504, LogError ''Unexpected error removing callbacks''] \<rparr>"
  by (simp add: proxy_step_def example_send handle_reply_def
      ZMQStreamingApplicationProxy_handle_reply_def example_pending_def never_raises_def
      logging_def handler_call_def except_socket_error_def DelayedCallback_fire_def
      handle_timeout_def Let_def)

section \<open>Streamed chunks reach the handler in order\<close>

lemma written_append: "written h (xs @ ys) = written h xs @ written h ys"
  by (induction h xs rule: written.induct) simp_all

lemma written_logs: "\<forall>ev\<in>set evs. is_log ev \<Longrightarrow> written h evs = []"
  by (induction h evs rule: written.induct) simp_all

lemma write_and_flush_frame:
  "write_and_flush B h c s = (s1, e) \<Longrightarrow>
   callbacks s1 = callbacks s \<and> timers s1 = timers s \<and>
   written h (trace s1) = written h (trace s) @ [c]"
  by (auto simp: write_and_flush_def handler_call_eq written_append split: option.splits)

lemma streaming_data_shape:
  assumes "callbacks s mid = Some (h, dc)"
  shows "ZMQStreamingApplicationProxy_handle_reply B [mid, ''DATA'', c] s =
         except_socket_error ''Unexpected write error''
           (write_and_flush B h c
              (case dc of
                 None \<Rightarrow> logging (LogDebug ''Handling reply'') s
               | Some d \<Rightarrow>
                   (DelayedCallback_stop d (logging (LogDebug ''Handling reply'') s))
                     \<lparr>callbacks := (callbacks s)(mid \<mapsto> (h, None))\<rparr>))"
  using assms
  by (simp add: ZMQStreamingApplicationProxy_handle_reply_def Let_def split: option.splits)

lemma streaming_data_step:
  assumes reg: "callbacks s mid = Some (h, dc)"
  shows "callbacks (fst (ZMQStreamingApplicationProxy_handle_reply B [mid, ''DATA'', c] s)) =
           (callbacks s)(mid \<mapsto> (h, None)) \<and>
         timers (fst (ZMQStreamingApplicationProxy_handle_reply B [mid, ''DATA'', c] s)) =
           (case dc of None \<Rightarrow> timers s | Some d \<Rightarrow> (timers s)(d := None)) \<and>
         written h (trace (fst (ZMQStreamingApplicationProxy_handle_reply B [mid, ''DATA'', c] s))) =
           written h (trace s) @ [c]"
proof -
  let ?s2 = "(case dc of
                 None \<Rightarrow> logging (LogDebug ''Handling reply'') s
               | Some d \<Rightarrow>
                   (DelayedCallback_stop d (logging (LogDebug ''Handling reply'') s))
                     \<lparr>callbacks := (callbacks s)(mid \<mapsto> (h, None))\<rparr>)"
  have c2: "callbacks ?s2 = (callbacks s)(mid \<mapsto> (h, None))"
    using reg by (cases dc) (auto simp: fun_upd_idem)
  have t2: "timers ?s2 = (case dc of None \<Rightarrow> timers s | Some d \<Rightarrow> (timers s)(d := None))"
    by (cases dc) simp_all
  have w2: "written h (trace ?s2) = written h (trace s)"
    by (cases dc) (simp_all add: written_append)
  obtain s3 e3 where wf: "write_and_flush B h c ?s2 = (s3, e3)"
    by (cases "write_and_flush B h c ?s2")
  obtain s1 e1 where r: "except_socket_error ''Unexpected write error'' (s3, e3) = (s1, e1)"
    by (cases "except_socket_error ''Unexpected write error'' (s3, e3)")
  from except_socket_error_frame [OF r] obtain post where
    p: "callbacks s1 = callbacks s3" "timers s1 = timers s3" "trace s1 = trace s3 @ post"
       "\<forall>ev\<in>set post. is_log ev"
    by blast
  from write_and_flush_frame [OF wf] c2 t2 w2 p
  have "callbacks s1 = (callbacks s)(mid \<mapsto> (h, None))"
    and "timers s1 = (case dc of None \<Rightarrow> timers s | Some d \<Rightarrow> (timers s)(d := None))"
    and "written h (trace s1) = written h (trace s) @ [c]"
    by (simp_all add: written_append written_logs)
  moreover have "ZMQStreamingApplicationProxy_handle_reply B [mid, ''DATA'', c] s = (s1, e1)"
    using streaming_data_shape [OF reg, of B c] wf r by simp
  ultimately show ?thesis by simp
qed

lemma proxy_run_append:
  "proxy_run L pc B (xs @ ys) s = proxy_run L pc B ys (proxy_run L pc B xs s)"
  by (induction xs arbitrary: s) simp_all

lemma data_run:
  "callbacks s mid = Some (h, dc) \<Longrightarrow>
   callbacks (proxy_run L ZMQStreamingApplicationProxy B (map (\<lambda>c. Reply [mid, ''DATA'', c]) cs) s) mid
     = Some (h, if cs = [] then dc else None) \<and>
   written h (trace (proxy_run L ZMQStreamingApplicationProxy B
      (map (\<lambda>c. Reply [mid, ''DATA'', c]) cs) s)) = written h (trace s) @ cs"
proof (induction cs arbitrary: s dc)
  case Nil
  then show ?case by simp
next
  case (Cons c cs)
  let ?s1 = "fst (ZMQStreamingApplicationProxy_handle_reply B [mid, ''DATA'', c] s)"
  from streaming_data_step [OF Cons.prems, of B c]
  have reg1: "callbacks ?s1 mid = Some (h, None)"
    and w1: "written h (trace ?s1) = written h (trace s) @ [c]"
    by simp_all
  from Cons.IH [OF reg1] w1 show ?case
    by (simp add: proxy_step_def handle_reply_def)
qed

text \<open>
  C7. On the streaming proxy, with \<open>mid\<close> pending for handler \<open>h\<close>: the first
  \<open>DATA\<close> chunk stops the timer and leaves the entry in place, without a timer; after
  any number of \<open>DATA\<close> chunks the entry is still there (without a timer as soon as
  one chunk has come) and the chunks have been passed to the handler's write in the
  order received; a \<open>FINISH\<close> after them removes the entry and finishes the handler
  after all those writes.
\<close>

theorem streaming_chunks_then_finish:
  assumes "callbacks s mid = Some (h, dc)"
  shows "(let s1 = fst (ZMQStreamingApplicationProxy_handle_reply B [mid, ''DATA'', c] s)
          in callbacks s1 mid = Some (h, None) \<and> (\<forall>d. dc = Some d \<longrightarrow> timers s1 d = None)) \<and>
         (let s2 = proxy_run L ZMQStreamingApplicationProxy B
                     (map (\<lambda>c. Reply [mid, ''DATA'', c]) cs) s
          in callbacks s2 mid = Some (h, if cs = [] then dc else None) \<and>
             written h (trace s2) = written h (trace s) @ cs) \<and>
         (let s3 = proxy_run L ZMQStreamingApplicationProxy B
                     (map (\<lambda>c. Reply [mid, ''DATA'', c]) cs @ [Reply [mid, ''FINISH'']]) s
          in callbacks s3 mid = None \<and>
             (\<exists>pre post. trace s3 = pre @ HFinish h # post \<and>
                written h pre = written h (trace s) @ cs \<and> written h post = []))"
proof -
  let ?s2 = "proxy_run L ZMQStreamingApplicationProxy B
                     (map (\<lambda>c. Reply [mid, ''DATA'', c]) cs) s"
  let ?s3 = "fst (ZMQStreamingApplicationProxy_handle_reply B [mid, ''FINISH''] ?s2)"
  from data_run [OF assms, of L B cs]
  have reg2: "callbacks ?s2 ([mid, ''FINISH''] ! 0) = Some (h, if cs = [] then dc else None)"
    and w2: "written h (trace ?s2) = written h (trace s) @ cs"
    by simp_all
  have len: "2 \<le> length [mid, ''FINISH'']" by simp
  have fin: "[mid, ''FINISH''] ! 1 = ''FINISH''" by simp
  from streaming_finish_step [OF len reg2 fin, of B] obtain post where
    c3: "callbacks ?s3 = (callbacks ?s2)(mid := None)"
    and t3: "trace ?s3 = trace ?s2 @ [LogDebug ''Handling reply'', HFinish h] @ post"
    and lg: "\<forall>ev\<in>set post. is_log ev"
    by auto
  have "trace ?s3 = (trace ?s2 @ [LogDebug ''Handling reply'']) @ HFinish h # post"
    using t3 by simp
  moreover have "written h (trace ?s2 @ [LogDebug ''Handling reply'']) = written h (trace s) @ cs"
    by (simp add: written_append w2)
  moreover have "written h post = []" using lg by (rule written_logs)
  ultimately have ex: "\<exists>pre post. trace ?s3 = pre @ HFinish h # post \<and>
                written h pre = written h (trace s) @ cs \<and> written h post = []"
    by blast
  have s3: "proxy_run L ZMQStreamingApplicationProxy B
              (map (\<lambda>c. Reply [mid, ''DATA'', c]) cs @ [Reply [mid, ''FINISH'']]) s = ?s3"
    by (simp add: proxy_run_append proxy_step_def handle_reply_def)
  from streaming_data_step [OF assms, of B c]
  have first: "callbacks (fst (ZMQStreamingApplicationProxy_handle_reply B [mid, ''DATA'', c] s)) mid
                 = Some (h, None)"
    "\<forall>d. dc = Some d \<longrightarrow>
       timers (fst (ZMQStreamingApplicationProxy_handle_reply B [mid, ''DATA'', c] s)) d = None"
    by simp_all
  from first data_run [OF assms, of L B cs] c3 ex s3 show ?thesis
    by (simp add: Let_def)
qed


theorem streaming_chunks_then_finish_witness:
  "callbacks example_pending ''id1'' = Some (7, Some 0) \<and>
   callbacks (fst (ZMQStreamingApplicationProxy_handle_reply never_raises
                [''id1'', ''DATA'', ''a''] example_pending)) ''id1'' = Some (7, None) \<and>
   timers (fst (ZMQStreamingApplicationProxy_handle_reply never_raises
                [''id1'', ''DATA'', ''a''] example_pending)) 0 = None \<and>
   callbacks (proxy_run example_lib ZMQStreamingApplicationProxy never_raises
                (map (\<lambda>c. Reply [''id1'', ''DATA'', c]) [''a'', ''b'']) example_pending) ''id1''
     = Some (7, None) \<and>
   written 7 (trace (proxy_run example_lib ZMQStreamingApplicationProxy never_raises
                (map (\<lambda>c. Reply [''id1'', ''DATA'', c]) [''a'', ''b'']) example_pending))
     = [''a'', ''b''] \<and>
   callbacks (proxy_run example_lib ZMQStreamingApplicationProxy never_raises
                (map (\<lambda>c. Reply [''id1'', ''DATA'', c]) [''a'', ''b''] @ [Reply [''id1'', ''FINISH'']])
                example_pending) ''id1'' = None \<and>
   trace (proxy_run example_lib ZMQStreamingApplicationProxy never_raises
                (map (\<lambda>c. Reply [''id1'', ''DATA'', c]) [''a'', ''b''] @ [Reply [''id1'', ''FINISH'']])
                example_pending) =
     [LogDebug ''Sending request'',
      LogDebug ''Handling reply'', HWrite 7 ''a'', HSetHeadersWritten 7, HSetTransforms 7, HFlush 7,
      LogDebug ''Handling reply'', HWrite 7 ''b'', HSetHeadersWritten 7, HSetTransforms 7, HFlush 7,
      LogDebug ''Handling reply'', HFinish 7]"
proof -
  have reg: "callbacks example_pending ''id1'' = Some (7, Some 0)"
    by (simp add: example_pending_def)
  have tr: "trace (proxy_run example_lib ZMQStreamingApplicationProxy never_raises
                (map (\<lambda>c. Reply [''id1'', ''DATA'', c]) [''a'', ''b''] @ [Reply [''id1'', ''FINISH'']])
                example_pending) =
     [LogDebug ''Sending request'',
      LogDebug ''Handling reply'', HWrite 7 ''a'', HSetHeadersWritten 7, HSetTransforms 7, HFlush 7,
      LogDebug ''Handling reply'', HWrite 7 ''b'', HSetHeadersWritten 7, HSetTransforms 7, HFlush 7,
      LogDebug ''Handling reply'', HFinish 7]"
    by (simp add: proxy_step_def handle_reply_def ZMQStreamingApplicationProxy_handle_reply_def
        example_pending_def never_raises_def logging_def handler_call_def write_and_flush_def
        except_socket_error_def DelayedCallback_stop_def Let_def)
  have w0: "written 7 (trace example_pending) = []"
    by (simp add: example_pending_def)
  from streaming_chunks_then_finish [OF reg, of never_raises "''a''" example_lib "[''a'', ''b'']"]
       reg tr w0
  show ?thesis by (simp add: Let_def)
qed

section \<open>An entry is removed at most once\<close>

lemma bulk_callbacks_cases:
  "callbacks (fst (ZMQApplicationProxy_handle_reply B msg_list s)) = callbacks s \<or>
   callbacks (fst (ZMQApplicationProxy_handle_reply B msg_list s)) =
     (callbacks s)(msg_list ! 0 := None)"
proof (cases "2 \<le> length msg_list")
  case False
  then have "length msg_list < 2 \<or> callbacks s (msg_list ! 0) = None" by simp
  from bulk_dropped [OF this, of B] show ?thesis by auto
next
  case len: True
  show ?thesis
  proof (cases "callbacks s (msg_list ! 0)")
    case None
    then have "length msg_list < 2 \<or> callbacks s (msg_list ! 0) = None" by simp
    from bulk_dropped [OF this, of B] show ?thesis by auto
  next
    case (Some cb)
    obtain h dc where "cb = (h, dc)" by (cases cb)
    with Some have reg: "callbacks s (msg_list ! 0) = Some (h, dc)" by simp
    from bulk_claims [OF len reg, of B] forward_replies_frame show ?thesis
      by (auto split: option.splits if_splits)
  qed
qed

lemma bulk_dom: "dom (callbacks (fst (ZMQApplicationProxy_handle_reply B msg_list s))) \<subseteq> dom (callbacks s)"
  using bulk_callbacks_cases [of B msg_list s] by (auto split: if_splits)

lemma streaming_dom:
  "dom (callbacks (fst (ZMQStreamingApplicationProxy_handle_reply B msg_list s))) \<subseteq> dom (callbacks s)"
proof (cases "2 \<le> length msg_list")
  case False
  then have "length msg_list < 2 \<or> callbacks s (msg_list ! 0) = None" by simp
  from streaming_dropped [OF this, of B] show ?thesis by auto
next
  case len: True
  show ?thesis
  proof (cases "callbacks s (msg_list ! 0)")
    case None
    then have "length msg_list < 2 \<or> callbacks s (msg_list ! 0) = None" by simp
    from streaming_dropped [OF this, of B] show ?thesis by auto
  next
    case (Some cb)
    obtain h dc where "cb = (h, dc)" by (cases cb)
    with Some have reg: "callbacks s (msg_list ! 0) = Some (h, dc)" by simp
    consider (fin) "msg_list ! 1 = ''FINISH''"
      | (data) "msg_list ! 1 = ''DATA''" "length msg_list = 3"
      | (other) "msg_list ! 1 \<noteq> ''FINISH''" "\<not> (msg_list ! 1 = ''DATA'' \<and> length msg_list = 3)"
      by blast
    then show ?thesis
    proof cases
      case fin
      from streaming_finish_step [OF len reg fin, of B] show ?thesis by auto
    next
      case data
      from data(2) obtain x y z where xyz: "msg_list = [x, y, z]"
        by (auto simp: numeral_3_eq_3 length_Suc_conv)
      with data(1) reg have "msg_list = [x, ''DATA'', z]" "callbacks s x = Some (h, dc)"
        by simp_all
      with streaming_data_step [of s x h dc B z] show ?thesis
        by (auto split: if_splits)
    next
      case other
      from streaming_other_shape [OF len reg other, of B] show ?thesis by auto
    qed
  qed
qed

lemma fire_dom: "dom (callbacks (fst (DelayedCallback_fire B d s))) \<subseteq> dom (callbacks s)"
  by (auto simp: DelayedCallback_fire_def handle_timeout_def handler_call_eq
      split: option.splits if_splits prod.splits)

lemma step_dom:
  "\<not> is_send a \<Longrightarrow> dom (callbacks (proxy_step L pc B a s)) \<subseteq> dom (callbacks s)"
  using bulk_dom streaming_dom fire_dom
  by (cases a; cases pc) (simp_all add: proxy_step_def handle_reply_def)

lemma send_callbacks:
  "send_request L request args kwargs h timeout mid s = Inr (m, s1) \<Longrightarrow>
   \<exists>dc. callbacks s1 = (callbacks s)(mid \<mapsto> (h, dc))"
  by (auto simp: send_request_def DelayedCallback_start_def Let_def
      split: sum.splits if_splits)

lemma step_send_keeps:
  "callbacks s m \<noteq> None \<Longrightarrow>
   callbacks (proxy_step L pc B (SendRequest request args kwargs h timeout mid) s) m \<noteq> None"
  by (auto simp: proxy_step_def split: sum.splits dest!: send_callbacks)

lemma step_send_other:
  "m \<noteq> mid \<Longrightarrow>
   callbacks (proxy_step L pc B (SendRequest request args kwargs h timeout mid) s) m = callbacks s m"
  by (auto simp: proxy_step_def split: sum.splits dest!: send_callbacks)

lemma removals_bound:
  "length (removals L pc B m as s) \<le>
     (if callbacks s m = None then 0 else 1) + count_list (sent_ids as) m"
proof (induction as arbitrary: s)
  case Nil
  then show ?case by simp
next
  case (Cons a as)
  let ?s1 = "proxy_step L pc B a s"
  note IH = Cons.IH [of ?s1]
  show ?case
  proof (cases a)
    case (SendRequest request args kwargs h timeout mid)
    with IH step_send_keeps [of s m L pc B request args kwargs h timeout mid]
         step_send_other [of m mid L pc B request args kwargs h timeout s]
    show ?thesis by (auto simp: Let_def split: if_splits)
  next
    case (Reply msg_list)
    then have "\<not> is_send a" by simp
    from step_dom [OF this, of L pc B s] IH Reply show ?thesis
      by (auto simp: Let_def split: if_splits)
  next
    case (TimerFires d)
    then have "\<not> is_send a" by simp
    from step_dom [OF this, of L pc B s] IH TimerFires show ?thesis
      by (auto simp: Let_def split: if_splits)
  qed
qed

lemma removals_not_send: "a \<in> set (removals L pc B m as s) \<Longrightarrow> \<not> is_send a"
proof (induction as arbitrary: s)
  case Nil
  then show ?case by simp
next
  case (Cons b as)
  show ?case
  proof (cases "a \<in> set (removals L pc B m as (proxy_step L pc B b s))")
    case True
    then show ?thesis by (rule Cons.IH)
  next
    case False
    with Cons.prems have ab: "a = b" and rm: "callbacks s m \<noteq> None"
      "callbacks (proxy_step L pc B b s) m = None"
      by (auto simp: Let_def split: if_splits)
    show ?thesis
    proof (cases b)
      case (SendRequest request args kwargs h timeout mid)
      with rm step_send_keeps [of s m L pc B request args kwargs h timeout mid]
      show ?thesis by simp
    qed (simp_all add: ab)
  qed
qed

lemma distinct_count_le1: "distinct xs \<Longrightarrow> count_list xs x \<le> 1"
  by (induction xs) (auto simp: count_list_0_iff)

text \<open>
  C8. In every run of a proxy, bulk or streaming, from its initial state: the registry
  is a dict, so a message id has at most one entry at any time; the entry of a message
  id is removed at most as many times as it was registered, hence at most once when
  the message ids sent are distinct; and every removal is done by a reply or by a
  timer firing, never by a send. So of the reply path and the timeout path at most one
  takes the entry.
\<close>

theorem entry_removed_at_most_once:
  "length (removals L pc B m as ZMQApplicationProxy_init) \<le> count_list (sent_ids as) m \<and>
   (distinct (sent_ids as) \<longrightarrow> length (removals L pc B m as ZMQApplicationProxy_init) \<le> 1) \<and>
   (\<forall>a\<in>set (removals L pc B m as ZMQApplicationProxy_init). \<not> is_send a) \<and>
   card {e. callbacks (proxy_run L pc B as ZMQApplicationProxy_init) m = Some e} \<le> 1"
proof -
  have b: "length (removals L pc B m as ZMQApplicationProxy_init) \<le> count_list (sent_ids as) m"
    using removals_bound [of L pc B m as ZMQApplicationProxy_init]
    by (simp add: ZMQApplicationProxy_init_def)
  have c: "card {e. callbacks (proxy_run L pc B as ZMQApplicationProxy_init) m = Some e} \<le> 1"
    by (cases "callbacks (proxy_run L pc B as ZMQApplicationProxy_init) m") simp_all
  from b c distinct_count_le1 [of "sent_ids as" m] removals_not_send [of _ L pc B m as]
  show ?thesis by (auto simp: le_trans)
qed


theorem entry_removed_at_most_once_witness:
  "distinct (sent_ids [SendRequest example_request (JList [JStr ''7'']) (JDict []) 7 5000 ''id1'',
                       Reply [''id1'', ''ok''], TimerFires 0, Reply [''id1'', ''ok'']]) \<and>
   length (removals example_lib ZMQApplicationProxy never_raises ''id1''
     [SendRequest example_request (JList [JStr ''7'']) (JDict []) 7 5000 ''id1'',
      Reply [''id1'', ''ok''], TimerFires 0, Reply [''id1'', ''ok'']] ZMQApplicationProxy_init) \<le> 1 \<and>
   removals example_lib ZMQApplicationProxy never_raises ''id1''
     [SendRequest example_request (JList [JStr ''7'']) (JDict []) 7 5000 ''id1'',
      Reply [''id1'', ''ok''], TimerFires 0, Reply [''id1'', ''ok'']] ZMQApplicationProxy_init =
     [Reply [''id1'', ''ok'']] \<and>
   removals example_lib ZMQStreamingApplicationProxy never_raises ''id1''
     [SendRequest example_request (JList [JStr ''7'']) (JDict []) 7 5000 ''id1'',
      TimerFires 0, Reply [''id1'', ''FINISH'']] ZMQApplicationProxy_init =
     [TimerFires 0]"
proof -
  have d: "distinct (sent_ids [SendRequest example_request (JList [JStr ''7'']) (JDict []) 7 5000 ''id1'',
                       Reply [''id1'', ''ok''], TimerFires 0, Reply [''id1'', ''ok'']])"
    by simp
  have r1: "removals example_lib ZMQApplicationProxy never_raises ''id1''
     [SendRequest example_request (JList [JStr ''7'']) (JDict []) 7 5000 ''id1'',
      Reply [''id1'', ''ok''], TimerFires 0, Reply [''id1'', ''ok'']] ZMQApplicationProxy_init =
     [Reply [''id1'', ''ok'']]"
    by (simp add: proxy_step_def example_send handle_reply_def Let_def)
       (simp add: ZMQApplicationProxy_init_def ZMQApplicationProxy_handle_reply_def
        example_pending_def never_raises_def logging_def handler_call_def forward_replies_def
        DelayedCallback_stop_def DelayedCallback_fire_def Let_def)
  have r2: "removals example_lib ZMQStreamingApplicationProxy never_raises ''id1''
     [SendRequest example_request (JList [JStr ''7'']) (JDict []) 7 5000 ''id1'',
      TimerFires 0, Reply [''id1'', ''FINISH'']] ZMQApplicationProxy_init =
     [TimerFires 0]"
    by (simp add: proxy_step_def example_send handle_reply_def Let_def)
       (simp add: ZMQApplicationProxy_init_def ZMQStreamingApplicationProxy_handle_reply_def
        example_pending_def never_raises_def logging_def handler_call_def handle_timeout_def
        DelayedCallback_fire_def Let_def)
  from entry_removed_at_most_once [of example_lib ZMQApplicationProxy never_raises "''id1''"
     "[SendRequest example_request (JList [JStr ''7'']) (JDict []) 7 5000 ''id1'',
       Reply [''id1'', ''ok''], TimerFires 0, Reply [''id1'', ''ok'']]"] d
  have "length (removals example_lib ZMQApplicationProxy never_raises ''id1''
     [SendRequest example_request (JList [JStr ''7'']) (JDict []) 7 5000 ''id1'',
      Reply [''id1'', ''ok''], TimerFires 0, Reply [''id1'', ''ok'']] ZMQApplicationProxy_init) \<le> 1"
    by blast
  with d r1 r2 show ?thesis by blast
qed

section \<open>Encoding a request and decoding it\<close>

lemma parse_encoded:
  assumes nodelim: "''|'' \<notin> set P"
    and len: "4 \<le> length P + 3 + length rest" "length rest \<le> 1"
    and codec: "loads L js = Some (request_meta r hdrs a k)"
    and url: "urlsplit L (uri r) = Some (p, q)"
  shows "ZMQApplication_parse_request L app (P @ ''|'' # mid # js # rest) =
     Inr (\<lparr> http_method = http_method r, uri = uri r, version = version r,
            headers = (if truthy hdrs then hdrs else JDict []),
            body = (case rest of [] \<Rightarrow> [] | b # bs \<Rightarrow> b),
            remote_ip = remote_ip r, protocol = protocol r, host = host r,
            files = (if truthy (files r) then files r else JDict []),
            arguments = arguments r,
            cls = (case http_request_class_setting app of None \<Rightarrow> ZMQHTTPRequest | Some c \<Rightarrow> c),
            path = p, query = q, idents = P, msg_id = mid,
            chunks = [], write_callback = None \<rparr>, a, k)"
proof -
  have idx: "index_of ''|'' (P @ ''|'' # mid # js # rest) = Some (length P)"
    by (rule index_of_append [OF nodelim])
  have gets: "getitem (request_meta r hdrs a k) ''method'' = Inr (http_method r)"
    "getitem (request_meta r hdrs a k) ''uri'' = Inr (uri r)"
    "getitem (request_meta r hdrs a k) ''version'' = Inr (version r)"
    "getitem (request_meta r hdrs a k) ''headers'' = Inr hdrs"
    "getitem (request_meta r hdrs a k) ''remote_ip'' = Inr (remote_ip r)"
    "getitem (request_meta r hdrs a k) ''protocol'' = Inr (protocol r)"
    "getitem (request_meta r hdrs a k) ''host'' = Inr (host r)"
    "getitem (request_meta r hdrs a k) ''files'' = Inr (files r)"
    "getitem (request_meta r hdrs a k) ''arguments'' = Inr (arguments r)"
    "getitem (request_meta r hdrs a k) ''args'' = Inr a"
    "getitem (request_meta r hdrs a k) ''kwargs'' = Inr k"
    by (simp_all add: getitem_def request_meta_def)
  show ?thesis
  proof (cases rest)
    case Nil
    with len have "P \<noteq> []" by auto
    with Nil len idx codec url gets show ?thesis
      by (simp add: ZMQApplication_parse_request_def Let_def then_e_def item_def nth_append
          ZMQHTTPRequest_init_def)
  next
    case (Cons b bs)
    with len have "bs = []" by simp
    with Cons len idx codec url gets show ?thesis
      by (simp add: ZMQApplication_parse_request_def Let_def then_e_def item_def nth_append
          ZMQHTTPRequest_init_def)
  qed
qed

lemma send_request_Inr:
  assumes "send_request L request args kwargs h timeout mid s = Inr (m, s1)"
  shows "dict_of (headers request) = Inr (headers request) \<and> m = mid \<and>
         proxy_stream s1 = proxy_stream s @
           [request_msg_list L mid (request_meta request (headers request) args kwargs)
              (body request)]"
  using assms
  by (auto simp: send_request_def dict_of_def DelayedCallback_start_def Let_def
      split: jvalue.splits if_splits)

text \<open>
  C5, as the code has it. Let the JSON codec give back the metadata it has encoded, let
  the URI split, and let the files of the request be a mapping. The proxy sends the
  frames \<open>|\<close>, the message id and the encoded metadata, followed by the body as a
  fourth frame exactly when the body is not empty. Behind any identity prefix \<open>P\<close>
  without a sentinel frame, with \<open>P\<close> or the body not empty, the back end decodes
  these frames to a request with the same method, uri, version, headers, remote_ip,
  protocol, host, files, arguments and body, with the same args and kwargs, with \<open>P\<close>
  as its identities and the same message id.
\<close>

theorem request_round_trip:
  assumes send: "send_request L request args kwargs h timeout mid s = Inr (m, s1)"
    and codec: "loads L (dumps L (request_meta request (headers request) args kwargs)) =
                Some (request_meta request (headers request) args kwargs)"
    and url: "urlsplit L (uri request) = Some (p, q)"
    and fdict: "\<exists>kvs. files request = JDict kvs"
    and nodelim: "''|'' \<notin> set P"
    and enough: "P \<noteq> [] \<or> body request \<noteq> []"
  shows "\<exists>msg rq.
           proxy_stream s1 = proxy_stream s @ [msg] \<and>
           msg = ''|'' # mid # dumps L (request_meta request (headers request) args kwargs) #
                   (if body request = [] then [] else [body request]) \<and>
           ZMQApplication_parse_request L app (P @ msg) = Inr (rq, args, kwargs) \<and>
           http_method rq = http_method request \<and> uri rq = uri request \<and>
           version rq = version request \<and> headers rq = headers request \<and>
           remote_ip rq = remote_ip request \<and> protocol rq = protocol request \<and>
           host rq = host request \<and> files rq = files request \<and>
           arguments rq = arguments request \<and> body rq = body request \<and>
           idents rq = P \<and> msg_id rq = mid"
proof -
  let ?meta = "request_meta request (headers request) args kwargs"
  let ?rest = "if body request = [] then [] else [body request]"
  let ?msg = "''|'' # mid # dumps L ?meta # ?rest"
  from send_request_Inr [OF send]
  have hd: "dict_of (headers request) = Inr (headers request)"
    and st: "proxy_stream s1 = proxy_stream s @ [?msg]"
    by (simp_all add: request_msg_list_def)
  from hd obtain hkvs where hk: "headers request = JDict hkvs"
    by (auto simp: dict_of_def split: jvalue.splits)
  from fdict obtain fkvs where fk: "files request = JDict fkvs" by blast
  have len: "4 \<le> length P + 3 + length ?rest" "length ?rest \<le> 1"
    using enough by (auto simp: Suc_le_eq)
  note pe = parse_encoded [OF nodelim len codec url, of app mid]
  show ?thesis
    apply (rule exI [of _ ?msg])
    apply (rule exI)
    apply (intro conjI)
      apply (rule st)
     apply (rule refl)
    apply (rule pe)
    apply (simp_all add: hk fk)
    done
qed


lemma example_codec:
  "loads example_lib (dumps example_lib
     (request_meta example_request (headers example_request) (JList [JStr ''7'']) (JDict []))) =
   Some (request_meta example_request (headers example_request) (JList [JStr ''7'']) (JDict []))"
  by (simp add: example_lib_def example_meta_def)

lemma example_url: "urlsplit example_lib (uri example_request) = Some (''/widgets/7'', [])"
  by (simp add: example_lib_def example_request_def)

theorem request_round_trip_witness:
  "send_request example_lib example_request (JList [JStr ''7'']) (JDict []) 7 5000 ''id1''
     ZMQApplicationProxy_init = Inr (''id1'', example_pending) \<and>
   loads example_lib (dumps example_lib
     (request_meta example_request (headers example_request) (JList [JStr ''7'']) (JDict []))) =
     Some (request_meta example_request (headers example_request) (JList [JStr ''7'']) (JDict [])) \<and>
   urlsplit example_lib (uri example_request) = Some (''/widgets/7'', []) \<and>
   (\<exists>kvs. files example_request = JDict kvs) \<and>
   ''|'' \<notin> set [''peer''] \<and>
   body example_request = [] \<and>
   (\<exists>msg rq.
      proxy_stream example_pending = proxy_stream ZMQApplicationProxy_init @ [msg] \<and>
      length msg = 3 \<and>
      ZMQApplication_parse_request example_lib example_app ([''peer''] @ msg) =
        Inr (rq, JList [JStr ''7''], JDict []) \<and>
      http_method rq = http_method example_request \<and> uri rq = uri example_request \<and>
      version rq = version example_request \<and> headers rq = headers example_request \<and>
      remote_ip rq = remote_ip example_request \<and> protocol rq = protocol example_request \<and>
      host rq = host example_request \<and> files rq = files example_request \<and>
      arguments rq = arguments example_request \<and> body rq = body example_request \<and>
      idents rq = [''peer''] \<and> msg_id rq = ''id1'')"
proof -
  have f: "\<exists>kvs. files example_request = JDict kvs" by (simp add: example_request_def)
  have n: "''|'' \<notin> set [''peer'']" by simp
  have e: "[''peer''] \<noteq> [] \<or> body example_request \<noteq> []" by simp
  have b: "body example_request = []" by (simp add: example_request_def)
  from request_round_trip [OF example_send example_codec example_url f n e, of example_app]
  obtain msg rq where
    "proxy_stream example_pending = proxy_stream ZMQApplicationProxy_init @ [msg]"
    "msg = ''|'' # ''id1'' # dumps example_lib
             (request_meta example_request (headers example_request) (JList [JStr ''7'']) (JDict [])) #
             (if body example_request = [] then [] else [body example_request])"
    "ZMQApplication_parse_request example_lib example_app ([''peer''] @ msg) =
        Inr (rq, JList [JStr ''7''], JDict [])"
    "http_method rq = http_method example_request" "uri rq = uri example_request"
    "version rq = version example_request" "headers rq = headers example_request"
    "remote_ip rq = remote_ip example_request" "protocol rq = protocol example_request"
    "host rq = host example_request" "files rq = files example_request"
    "arguments rq = arguments example_request" "body rq = body example_request"
    "idents rq = [''peer'']" "msg_id rq = ''id1''"
    by (elim exE conjE)
  moreover from this(2) b have "length msg = 3" by simp
  ultimately have "\<exists>msg rq.
      proxy_stream example_pending = proxy_stream ZMQApplicationProxy_init @ [msg] \<and>
      length msg = 3 \<and>
      ZMQApplication_parse_request example_lib example_app ([''peer''] @ msg) =
        Inr (rq, JList [JStr ''7''], JDict []) \<and>
      http_method rq = http_method example_request \<and> uri rq = uri example_request \<and>
      version rq = version example_request \<and> headers rq = headers example_request \<and>
      remote_ip rq = remote_ip example_request \<and> protocol rq = protocol example_request \<and>
      host rq = host example_request \<and> files rq = files example_request \<and>
      arguments rq = arguments example_request \<and> body rq = body example_request \<and>
      idents rq = [''peer''] \<and> msg_id rq = ''id1''"
    by (intro exI [of _ msg] exI [of _ rq] conjI)
  with example_send example_codec example_url f n b show ?thesis by (intro conjI)
qed

text \<open>
  C5 as stated fails: the request \<open>GET /widgets/7\<close> has no body, its encoding has
  three frames, and the decoder rejects a frame list of fewer than four frames before
  it looks at them, though the codec would have given the metadata back.
\<close>

theorem request_round_trip_counterexample:
  "send_request example_lib example_request (JList [JStr ''7'']) (JDict []) 7 5000 ''id1''
     ZMQApplicationProxy_init = Inr (''id1'', example_pending) \<and>
   proxy_stream example_pending = [[''|'', ''id1'', ''json of GET /widgets/7'']] \<and>
   loads example_lib ''json of GET /widgets/7'' = Some example_meta \<and>
   ZMQApplication_parse_request example_lib example_app
     [''|'', ''id1'', ''json of GET /widgets/7''] = Inl IndexError"
  by (simp add: example_send)
     (simp add: example_pending_def example_lib_def ZMQApplication_parse_request_def)

end
